theory Spec2Isabelle
  imports Main
begin

section \<open>Strings and errors\<close>

text \<open>
  A Go string holding UTF-8 text is modelled by the list of its code points (runes);
  \<open>utf8\<close> gives back its bytes, so that \<open>len\<close> and byte indexing count what Go counts.
  Input that is not valid UTF-8 is outside the model.
\<close>

type_synonym rune = int
type_synonym gostr = "rune list"

definition str :: "string \<Rightarrow> gostr" where
  "str s = map of_char s"

definition utf8_rune :: "rune \<Rightarrow> int list" where
  "utf8_rune r =
     (if r < 128 then [r]
      else if r < 2048 then [192 + r div 64, 128 + r mod 64]
      else if r < 65536 then [224 + r div 4096, 128 + (r div 64) mod 64, 128 + r mod 64]
      else [240 + r div 262144, 128 + (r div 4096) mod 64, 128 + (r div 64) mod 64,
            128 + r mod 64])"

definition utf8 :: "gostr \<Rightarrow> int list" where
  "utf8 s = concat (map utf8_rune s)"

definition len :: "gostr \<Rightarrow> nat" where
  "len s = length (utf8 s)"

text \<open>
  Go errors. The sentinels of error.go are constructors of their own; \<open>New\<close> is
  \<open>errors.New\<close> (and \<open>fmt.Errorf\<close> without \<open>%w\<close>), \<open>Wrap\<close> is \<open>fmt.Errorf\<close> with one
  \<open>%w\<close> (the text is the format string), \<open>Joined\<close> is \<open>errors.Join\<close>.
\<close>

datatype error =
    ErrNoCacheAndNoDownload
  | ErrDataSourceNoSource
  | ErrAllUrlsFailed
  | ErrDbClosed
  | ErrDbNameTooLong
  | NotInitializedError gostr
  | NoSuchDatabaseError gostr
  | ENOENT
  | New string
  | Wrap string error
  | Joined "error list"

fun errors_Is :: "error \<Rightarrow> error \<Rightarrow> bool" where
  "errors_Is (Wrap m e) target = (Wrap m e = target \<or> errors_Is e target)"
| "errors_Is (Joined es) target = (Joined es = target \<or> list_ex (\<lambda>e. errors_Is e target) es)"
| "errors_Is e target = (e = target)"

section \<open>The normalizer (package normalize)\<close>

definition dot :: rune where
  "dot = 46"

definition isSpace :: "rune \<Rightarrow> bool" where
  "isSpace r =
     ((9 \<le> r \<and> r \<le> 13) \<or> r = 32 \<or> r = 133 \<or> r = 160 \<or> r = 5760
      \<or> (8192 \<le> r \<and> r \<le> 8202)
      \<or> r = 8232 \<or> r = 8233 \<or> r = 8239 \<or> r = 8287 \<or> r = 12288)"

definition TrimSpace :: "gostr \<Rightarrow> gostr" where
  "TrimSpace s = rev (dropWhile isSpace (rev (dropWhile isSpace s)))"

definition HasPrefix :: "gostr \<Rightarrow> gostr \<Rightarrow> bool" where
  "HasPrefix s p = (take (length p) s = p)"

definition HasSuffix :: "gostr \<Rightarrow> gostr \<Rightarrow> bool" where
  "HasSuffix s p = (length p \<le> length s \<and> drop (length s - length p) s = p)"

definition TrimPrefix :: "gostr \<Rightarrow> gostr \<Rightarrow> gostr" where
  "TrimPrefix s p = (if HasPrefix s p then drop (length p) s else s)"

definition TrimSuffix :: "gostr \<Rightarrow> gostr \<Rightarrow> gostr" where
  "TrimSuffix s p = (if HasSuffix s p then take (length s - length p) s else s)"

fun Contains :: "gostr \<Rightarrow> gostr \<Rightarrow> bool" where
  "Contains [] p = (p = [])"
| "Contains (c # s) p = (HasPrefix (c # s) p \<or> Contains s p)"

text \<open>\<open>strings.Split\<close> with a one-rune separator: the fields between the separators.\<close>

fun Split :: "gostr \<Rightarrow> rune \<Rightarrow> gostr list" where
  "Split [] sep = [[]]"
| "Split (c # s) sep =
     (if c = sep then [] # Split s sep
      else (case Split s sep of [] \<Rightarrow> [[c]] | f # fs \<Rightarrow> (c # f) # fs))"

text \<open>
  \<open>strings.ToLower\<close>: exact on ASCII. Of the runes beyond ASCII only U+0130 and U+212A
  have an ASCII lower case; the others are left as they are, which keeps them non-ASCII
  as Go's mapping does.
\<close>

definition toLower_rune :: "rune \<Rightarrow> rune" where
  "toLower_rune r =
     (if 65 \<le> r \<and> r \<le> 90 then r + 32
      else if r = 304 then 105
      else if r = 8490 then 107
      else r)"

definition ToLower :: "gostr \<Rightarrow> gostr" where
  "ToLower s = map toLower_rune s"

text \<open>
  The struct \<open>DomainNormalizer\<close>. Its \<open>profile\<close> field is the UTS #46 profile of
  golang.org/x/net/idna, which is not code of this repository: the model takes the
  profile's \<open>ToASCII\<close> as a parameter.
\<close>

record DomainNormalizer =
  profile :: "gostr \<Rightarrow> error + gostr"
  dotReplacer :: "gostr \<Rightarrow> gostr"

definition dots_Replace :: "gostr \<Rightarrow> gostr" where
  "dots_Replace s = map (\<lambda>r. if r = 12290 \<or> r = 65294 \<or> r = 65377 then dot else r) s"

definition NewDomainNormalizer :: "(gostr \<Rightarrow> error + gostr) \<Rightarrow> DomainNormalizer" where
  "NewDomainNormalizer p = \<lparr>profile = p, dotReplacer = dots_Replace\<rparr>"

definition invisible :: "rune \<Rightarrow> bool" where
  "invisible r =
     ((0 \<le> r \<and> r \<le> 31) \<or> r = 127
      \<or> r = 8203 \<or> r = 8204 \<or> r = 8205 \<or> r = 8288 \<or> r = 65279
      \<or> r = 8234 \<or> r = 8235 \<or> r = 8236 \<or> r = 8237 \<or> r = 8238)"

definition stripInvisibleChars :: "gostr \<Rightarrow> gostr" where
  "stripInvisibleChars s = filter (\<lambda>r. \<not> invisible r) s"

definition isAlnum :: "int \<Rightarrow> bool" where
  "isAlnum b = ((97 \<le> b \<and> b \<le> 122) \<or> (48 \<le> b \<and> b \<le> 57))"

text \<open>\<open>isLDHOrPunycode\<close> works on the bytes of the label.\<close>

definition isLDHOrPunycode :: "gostr \<Rightarrow> bool" where
  "isLDHOrPunycode lbl =
     (let bs = utf8 lbl; l = length bs in
      if l = 0 then False
      else if \<not> isAlnum (bs ! (l - 1)) then False
      else if \<not> isAlnum (bs ! 0) \<and> \<not> HasPrefix lbl (str ''xn--'') then False
      else list_all (\<lambda>c. (97 \<le> c \<and> c \<le> 122) \<or> (48 \<le> c \<and> c \<le> 57) \<or> c = 45) bs)"

text \<open>The loop over the labels of the ASCII form: the first offending label gives the error.\<close>

fun check_labels :: "gostr list \<Rightarrow> error option" where
  "check_labels [] = None"
| "check_labels (lbl # ls) =
     (if len lbl = 0 \<or> len lbl > 63 then Some (New ''label length out of range 1..63'')
      else if \<not> isLDHOrPunycode lbl then Some (New ''label contains invalid ASCII characters'')
      else check_labels ls)"

text \<open>The two \<open>for\<close> statements that take dots off the front and off the end.\<close>

function trim_leading_dots :: "gostr \<Rightarrow> gostr" where
  "trim_leading_dots s =
     (if s \<noteq> [] \<and> HasPrefix s [dot] then trim_leading_dots (TrimPrefix s [dot]) else s)"
  by pat_completeness auto
termination
  by (relation "measure length") (auto simp: TrimPrefix_def)

declare trim_leading_dots.simps [simp del]

definition trim_trailing_dots :: "gostr \<Rightarrow> gostr" where
  "trim_trailing_dots s = rev (trim_leading_dots (rev s))"

definition NormalizeDomain :: "DomainNormalizer \<Rightarrow> gostr \<Rightarrow> error + gostr" where
  "NormalizeDomain n input =
     (let s = TrimSpace input in
      if s = [] then Inl (New ''empty domain'')
      else
        let s = dotReplacer n s;
            s = stripInvisibleChars s
        in
        if s = [] then Inl (New ''empty domain after stripping invisibles'')
        else
          let s = (if HasSuffix s [dot] then TrimSuffix s [dot] else s) in
          if s = [] then Inl (New ''domain has no labels'')
          else
            let s = trim_leading_dots s;
                s = trim_trailing_dots s
            in
            if Contains s [dot, dot] then Inl (New ''domain contains empty label'')
            else if list_ex (\<lambda>p. p = []) (Split s dot)
            then Inl (New ''domain contains empty label'')
            else
              (case profile n s of
                 Inl err \<Rightarrow> Inl (Wrap ''idna toASCII: %w'' err)
               | Inr ascii0 \<Rightarrow>
                   let ascii = ToLower ascii0 in
                   (case check_labels (Split ascii dot) of
                      Some e \<Rightarrow> Inl e
                    | None \<Rightarrow>
                        if len ascii > 253
                        then Inl (New ''domain length exceeds 253 characters'')
                        else Inr ascii)))"



text \<open>misc.go: \<open>NormalizeDomainName\<close> builds a normalizer and runs it.\<close>

definition NormalizeDomainName :: "(gostr \<Rightarrow> error + gostr) \<Rightarrow> gostr \<Rightarrow> error + gostr" where
  "NormalizeDomainName p domain = NormalizeDomain (NewDomainNormalizer p) domain"

section \<open>Streams, storage interface and engine state (emaildb.go, storage.go)\<close>

text \<open>
  An \<open>io.Reader\<close> is modelled by what a consumer that reads it to the end gets: the
  bytes, then end of file (\<open>None\<close>) or a read error. A call that can panic returns an
  \<open>outcome\<close>.
\<close>

type_synonym stream = "gostr \<times> error option"

datatype 'a outcome = Done 'a | Panic

text \<open>
  Modelled from the spec: the declarations of \<open>AllCheckpoints\<close>, \<open>Checkpoint\<close> and
  \<open>DbNameMaxSize\<close> are not among the sources. The spec gives the document as a mapping
  from database name to \<open>{LastUpdatedUnix}\<close> and the name limit as 255 bytes. The Go map
  is an association list read with \<open>map_of\<close>.
\<close>

record Checkpoint =
  cp_LastUpdatedUnix :: int

record AllCheckpoints =
  Checkpoints :: "(gostr \<times> Checkpoint) list"

definition DbNameMaxSize :: nat where
  "DbNameMaxSize = 255"

fun map_set :: "('k \<times> 'v) list \<Rightarrow> 'k \<Rightarrow> 'v \<Rightarrow> ('k \<times> 'v) list" where
  "map_set [] k v = [(k, v)]"
| "map_set ((k', v') # kvs) k v =
     (if k' = k then (k, v) # kvs else (k', v') # map_set kvs k v)"

text \<open>
  The interface \<open>StorageDriver\<close>: four methods over the state \<open>'st\<close> of the medium
  behind the driver. The two read methods return Go's pair of a value (\<open>None\<close> is
  \<open>nil\<close>) and an error.
\<close>

record 'st StorageDriver =
  WriteDatabase :: "gostr \<Rightarrow> stream \<Rightarrow> 'st \<Rightarrow> error option \<times> 'st"
  ReadDatabase :: "gostr \<Rightarrow> 'st \<Rightarrow> (stream option \<times> error option) \<times> 'st"
  WriteCheckpoints :: "AllCheckpoints \<Rightarrow> 'st \<Rightarrow> error option \<times> 'st"
  ReadCheckpoints :: "'st \<Rightarrow> (AllCheckpoints option \<times> error option) \<times> 'st"

text \<open>What \<open>httpClient.Do\<close> gives for a URL: an error, or a status with a body.\<close>

datatype http_result = DoError error | Response int stream

text \<open>
  \<open>DataSource\<close>: a \<open>Get\<close> function is modelled by what a call of it returns
  (\<open>None\<close> is a nil function).
\<close>

record DataSource =
  Urls :: "gostr list"
  Get :: "(error + stream) option"
  RefreshInterval :: int

record dbSrcMap =
  Has :: bool
  Src :: DataSource
  Domains :: "gostr set"
  LastUpdatedUnix :: int

text \<open>
  \<open>DomainDb\<close>. The logger and the channel of checkpoint updates are left out; the
  field \<open>store\<close> is the state of the medium that \<open>storage\<close> works on. The locks of the
  entries are left out: the model runs one call at a time.
\<close>

record 'st DomainDb =
  storage :: "'st StorageDriver"
  store :: 'st
  disableDl :: bool
  httpClient :: "gostr \<Rightarrow> http_result"
  dbs :: "gostr \<rightharpoonup> dbSrcMap"
  isRunning :: bool

text \<open>
  What lies outside the program: the UTS #46 profile of the idna library, the clock
  (\<open>time.Now().Unix()\<close>), and how many bytes the scanner's buffer had pulled from its
  reader when the loader stopped before the end of the stream.
\<close>

record world =
  uts46 :: "gostr \<Rightarrow> error + gostr"
  now :: int
  pulled :: nat

section \<open>Source opener\<close>

text \<open>
  The producer goroutine of \<open>openDataSource\<close>: for each URL in order the body goes into
  the pipe, then a newline, and the failures are collected. The consumer is taken to
  read the pipe to its end.
\<close>

fun fetch_urls ::
  "(gostr \<Rightarrow> http_result) \<Rightarrow> gostr list \<Rightarrow> gostr \<Rightarrow> error list \<Rightarrow> gostr \<times> error list" where
  "fetch_urls client [] out failures = (out, failures)"
| "fetch_urls client (srcUrl # urls) out failures =
     (case client srcUrl of
        DoError err \<Rightarrow>
          fetch_urls client urls (out @ [10])
            (failures @ [Wrap ''failed to download database (source URL %s): %w'' err])
      | Response status body \<Rightarrow>
          if status \<noteq> 200
          then fetch_urls client urls (out @ [10])
                 (failures @ [New ''failed to download database because status code was not 200''])
          else
            (case snd body of
               Some err \<Rightarrow>
                 fetch_urls client urls (out @ fst body @ [10])
                   (failures @ [Wrap ''failed to download database (source URL %s, bytes written: %d): %w'' err])
             | None \<Rightarrow> fetch_urls client urls (out @ fst body @ [10]) failures))"

definition url_pipe :: "(gostr \<Rightarrow> http_result) \<Rightarrow> gostr list \<Rightarrow> stream" where
  "url_pipe client urls =
     (let (out, failures) = fetch_urls client urls [] [] in
      if length failures = length urls
      then (out, Some (Joined (failures @ [ErrAllUrlsFailed])))
      else (out, None))"

definition openDataSource :: "(gostr \<Rightarrow> http_result) \<Rightarrow> DataSource \<Rightarrow> error + stream" where
  "openDataSource client src =
     (case Get src of
        Some got \<Rightarrow>
          (case got of
             Inl err \<Rightarrow> Inl (Wrap ''failed to get database (source Get function): %w'' err)
           | Inr reader \<Rightarrow> Inr reader)
      | None \<Rightarrow>
          if length (Urls src) > 0 then Inr (url_pipe client (Urls src))
          else Inl ErrDataSourceNoSource)"

section \<open>Loader\<close>

text \<open>
  The tokens of a \<open>bufio.Scanner\<close> with the default split function \<open>ScanLines\<close>: the
  lines between newlines, each without one trailing carriage return; a last line without
  newline counts when it is not empty. The loader makes the scanner with
  \<open>bufio.NewScanner\<close> and never calls \<open>Buffer\<close>, so the buffer holds at most
  \<open>MaxScanTokenSize\<close> bytes: at the first line of that many bytes or more (its
  carriage return counted) \<open>Scan\<close> returns false with \<open>ErrTooLong\<close>, and neither this
  line nor any line behind it is delivered. The scanner delivers the same tokens whether
  the stream ends with end of file or with an error, and only \<open>scanner.Err()\<close> tells the
  difference. The reader is taken to report its end, or its error, on a read of its own,
  as a pipe and a file do.
\<close>

definition dropCR :: "gostr \<Rightarrow> gostr" where
  "dropCR l = (if l \<noteq> [] \<and> last l = 13 then butlast l else l)"

definition MaxScanTokenSize :: int where
  "MaxScanTokenSize = 65536"

definition raw_lines :: "gostr \<Rightarrow> gostr list" where
  "raw_lines bs = (let fs = Split bs 10 in if last fs = [] then butlast fs else fs)"

definition fits_token :: "gostr \<Rightarrow> bool" where
  "fits_token l = (int (len l) < MaxScanTokenSize)"

definition scan_lines :: "gostr \<Rightarrow> gostr list" where
  "scan_lines bs = map dropCR (takeWhile fits_token (raw_lines bs))"

text \<open>Whether the scanner gave up on a line that is too long.\<close>

definition token_too_long :: "gostr \<Rightarrow> bool" where
  "token_too_long bs = (\<not> list_all fits_token (raw_lines bs))"

definition maxFailures :: nat where
  "maxFailures = 10"

text \<open>
  The scanning loop of \<open>loadDomainsFromReader\<close> over the tokens. The last component says
  whether the loop ended on the failure threshold with a token in hand (and not on the end
  of the stream).
\<close>

fun load_loop ::
  "(gostr \<Rightarrow> error + gostr) \<Rightarrow> gostr list \<Rightarrow> gostr set \<Rightarrow> error list \<Rightarrow> nat
   \<Rightarrow> gostr set \<times> error list \<times> nat \<times> bool" where
  "load_loop p [] domains failures goodLines = (domains, failures, goodLines, False)"
| "load_loop p (line # rest) domains failures goodLines =
     (if \<not> length failures < maxFailures then (domains, failures, goodLines, True)
      else if line = [] \<or> hd line = 35 then load_loop p rest domains failures goodLines
      else
        (case NormalizeDomainName p line of
           Inl err \<Rightarrow>
             load_loop p rest domains
               (failures @ [Wrap ''failed to normalize domain name %s: %w'' err]) goodLines
         | Inr normalized \<Rightarrow>
             load_loop p rest (insert normalized domains) failures (goodLines + 1)))"

text \<open>
  The same loop, counting the calls of \<open>scanner.Scan()\<close> that deliver a line. The
  condition of the loop calls \<open>Scan\<close> first and compares the number of failures with
  \<open>maxFailures\<close> after it, so a line is delivered before the loop is left on the
  threshold. The third argument is the number of failures so far.
\<close>

fun scans :: "(gostr \<Rightarrow> error + gostr) \<Rightarrow> gostr list \<Rightarrow> nat \<Rightarrow> nat" where
  "scans p [] n = 0"
| "scans p (line # rest) n =
     Suc (if \<not> n < maxFailures then 0
          else if line = [] \<or> hd line = 35 then scans p rest n
          else
            (case NormalizeDomainName p line of
               Inl err \<Rightarrow> scans p rest (Suc n)
             | Inr normalized \<Rightarrow> scans p rest n))"

definition loadDomainsFromReader ::
  "world \<Rightarrow> 'st DomainDb \<Rightarrow> stream \<Rightarrow> gostr \<Rightarrow> (error option \<times> 'st DomainDb) outcome" where
  "loadDomainsFromReader w s reader name =
     (let (domains, failures, goodLines, early) =
            load_loop (uts46 w) (scan_lines (fst reader)) {} [] 0
      in
      if length failures > goodLines
      then Done (Some (Wrap ''encountered %d parse failures while loading datacenter ranges, but only %d lines were successfully parsed: %w''
                        (Joined failures)), s)
      else
        (case dbs s name of
           None \<Rightarrow> Panic
         | Some data \<Rightarrow> Done (None, s\<lparr>dbs := (dbs s)(name \<mapsto> data\<lparr>Domains := domains\<rparr>)\<rparr>)))"

section \<open>Refresh step and query\<close>

text \<open>
  The bytes that went through the tee reader into the pipe of the storage writer: all of
  the source when the scanner reached its end, else (the loader left its loop on the
  threshold, or the scanner gave up on a line that is too long) what the scanner had
  pulled.
\<close>

definition teed :: "world \<Rightarrow> stream \<Rightarrow> gostr" where
  "teed w reader =
     (let (domains, failures, goodLines, early) =
            load_loop (uts46 w) (scan_lines (fst reader)) {} [] 0
      in if early \<or> token_too_long (fst reader) then take (pulled w) (fst reader)
         else fst reader)"

text \<open>
  \<open>DownloadAndLoadDatabase\<close>. The storage writer runs in a goroutine of its own on the
  other end of the pipe; the model takes it to consume the pipe, and applies its effect
  on the medium before the call returns.
\<close>

definition DownloadAndLoadDatabase ::
  "world \<Rightarrow> 'st DomainDb \<Rightarrow> gostr \<Rightarrow> (error option \<times> 'st DomainDb) outcome" where
  "DownloadAndLoadDatabase w s name =
     (case dbs s name of
        None \<Rightarrow> Done (Some (NoSuchDatabaseError name), s)
      | Some data \<Rightarrow>
          (case openDataSource (httpClient s) (Src data) of
             Inl err \<Rightarrow>
               Done (Some (Wrap ''failed to read from source of data with name %s: %w'' err), s)
           | Inr reader \<Rightarrow>
               (case loadDomainsFromReader w s reader name of
                  Panic \<Rightarrow> Panic
                | Done (Some err, s1) \<Rightarrow>
                    let wrapped = Wrap ''failed to parse database with name %s: %w'' err;
                        written = WriteDatabase (storage s1) name (teed w reader, Some wrapped) (store s1)
                    in Done (Some wrapped, s1\<lparr>store := snd written\<rparr>)
                | Done (None, s1) \<Rightarrow>
                    let written = WriteDatabase (storage s1) name (teed w reader, None) (store s1);
                        s2 = s1\<lparr>store := snd written\<rparr>
                    in
                    (case fst written of
                       Some err \<Rightarrow>
                         Done (Some (Wrap ''failed to write database with name %s: %w'' err), s2)
                     | None \<Rightarrow> Done (None, s2)))))"

definition DoesDbHaveDomain :: "world \<Rightarrow> 'st DomainDb \<Rightarrow> gostr \<Rightarrow> gostr \<Rightarrow> error + bool" where
  "DoesDbHaveDomain w s dbName domain =
     (case dbs s dbName of
        None \<Rightarrow> Inl (NoSuchDatabaseError dbName)
      | Some data \<Rightarrow>
          (case NormalizeDomainName (uts46 w) domain of
             Inl err \<Rightarrow> Inl err
           | Inr normalized \<Rightarrow> Inr (normalized \<in> Domains data)))"

section \<open>Construction and startup\<close>

record 'st Options =
  opt_StorageDriver :: "'st StorageDriver"
  opt_store :: 'st
  HttpClient :: "gostr \<Rightarrow> http_result"
  DisableDownload :: bool
  LoadDatabasesInBackground :: bool
  Sources :: "(gostr \<times> DataSource) list"

text \<open>
  \<open>Sources\<close> is a Go map: the association list gives its keys once each, in the order in
  which the runtime happens to range over them. \<open>opt_store\<close> is the state of the medium
  when the engine is built.
\<close>

definition new_dbSrcMap :: "DataSource \<Rightarrow> dbSrcMap" where
  "new_dbSrcMap src = \<lparr>Has = False, Src = src, Domains = {}, LastUpdatedUnix = 0\<rparr>"

definition new_DomainDb :: "'st Options \<Rightarrow> 'st DomainDb" where
  "new_DomainDb options =
     \<lparr>storage = opt_StorageDriver options,
      store = opt_store options,
      disableDl = DisableDownload options,
      httpClient = HttpClient options,
      dbs = map_of (map (\<lambda>(name, src). (name, new_dbSrcMap src)) (Sources options)),
      isRunning = True\<rparr>"

text \<open>
  The first \<open>for\<close> statement of the closure \<open>setup\<close>, over the names, in three parts. The end of
  the loop body: with no cached reader the database is downloaded (when that is allowed),
  else it is loaded from the reader. The result gives the value of a \<open>return\<close> statement
  when one was run (\<open>Some\<close>), and the engine.
\<close>

definition load_or_download ::
  "world \<Rightarrow> 'st DomainDb \<Rightarrow> gostr \<Rightarrow> stream option
   \<Rightarrow> (error option option \<times> 'st DomainDb) outcome" where
  "load_or_download w s name reader =
     (case reader of
        None \<Rightarrow>
          if disableDl s
          then Done (Some (Some (Wrap ''cannot download database with name %s during initialization: %w''
                                   ErrNoCacheAndNoDownload)), s)
          else
            (case DownloadAndLoadDatabase w s name of
               Panic \<Rightarrow> Panic
             | Done (Some e, s1) \<Rightarrow>
                 Done (Some (Some (Wrap ''failed to download database with name %s during initialization: %w'' e)),
                       s1)
             | Done (None, s1) \<Rightarrow>
                 Done (None,
                       s1\<lparr>dbs := (case dbs s1 name of
                                     None \<Rightarrow> dbs s1
                                   | Some data \<Rightarrow> (dbs s1)(name \<mapsto> data\<lparr>LastUpdatedUnix := now w\<rparr>))\<rparr>))
      | Some r \<Rightarrow>
          (case loadDomainsFromReader w s r name of
             Panic \<Rightarrow> Panic
           | Done (Some e, s1) \<Rightarrow>
               Done (Some (Some (Wrap ''failed to load database with name %s during initialization: %w'' e)),
                     s1)
           | Done (None, s1) \<Rightarrow> Done (None, s1)))"

text \<open>
  The loop body for one name. The reader that \<open>ReadDatabase\<close> returned is appended to the
  slice \<open>toClose\<close> whether or not it is nil (\<open>None\<close>).
\<close>

definition setup_one ::
  "world \<Rightarrow> bool \<Rightarrow> gostr \<Rightarrow> 'st DomainDb \<Rightarrow> stream option list
   \<Rightarrow> (error option option \<times> 'st DomainDb \<times> stream option list) outcome" where
  "setup_one w alreadyHadCheckpoints name s toClose =
     (if \<not> isRunning s then Done (Some None, s, toClose)
      else
        let rd = (if alreadyHadCheckpoints then ReadDatabase (storage s) name (store s)
                  else ((None, None), store s));
            reader = fst (fst rd);
            err = snd (fst rd);
            s0 = s\<lparr>store := snd rd\<rparr>
        in
        if alreadyHadCheckpoints \<and> err \<noteq> None \<and> \<not> errors_Is (the err) ENOENT
        then Done (Some (Some (Wrap ''failed to read database with name %s during initialization: %w'' (the err))),
                   s0, toClose)
        else
          let toClose1 = (if alreadyHadCheckpoints then toClose @ [reader] else toClose) in
          (case load_or_download w s0 name reader of
             Panic \<Rightarrow> Panic
           | Done (ret, s1) \<Rightarrow> Done (ret, s1, toClose1)))"

fun setup_read ::
  "world \<Rightarrow> bool \<Rightarrow> gostr list \<Rightarrow> 'st DomainDb \<Rightarrow> stream option list
   \<Rightarrow> (error option option \<times> 'st DomainDb \<times> stream option list) outcome" where
  "setup_read w alreadyHadCheckpoints [] s toClose = Done (None, s, toClose)"
| "setup_read w alreadyHadCheckpoints (name # names) s toClose =
     (case setup_one w alreadyHadCheckpoints name s toClose of
        Panic \<Rightarrow> Panic
      | Done (Some r, s1, toClose1) \<Rightarrow> Done (Some r, s1, toClose1)
      | Done (None, s1, toClose1) \<Rightarrow> setup_read w alreadyHadCheckpoints names s1 toClose1)"

text \<open>The second \<open>for\<close> statement: the checkpoint of every name, taken over or started at 0.\<close>

fun populate ::
  "(gostr \<rightharpoonup> dbSrcMap) \<Rightarrow> gostr list \<Rightarrow> (gostr \<times> Checkpoint) list \<Rightarrow> (gostr \<times> Checkpoint) list" where
  "populate d [] cps = cps"
| "populate d (name # names) cps =
     (let chkPnt = (case map_of cps name of
                      None \<Rightarrow> \<lparr>cp_LastUpdatedUnix = 0\<rparr>
                    | Some c \<Rightarrow> c);
          lu = (case d name of None \<Rightarrow> 0 | Some data \<Rightarrow> LastUpdatedUnix data);
          chkPnt1 = (if lu \<noteq> 0 then chkPnt\<lparr>cp_LastUpdatedUnix := lu\<rparr> else chkPnt)
      in populate d names (map_set cps name chkPnt1))"

text \<open>
  The closure \<open>setup\<close> of \<open>NewDomainDb\<close>: both \<open>for\<close> statements and the writing of the
  checkpoints; the goroutines that it starts at its end (checkpoint writer, updaters) are
  left out. \<open>checkpoints\<close> is the pointer that \<open>ReadCheckpoints\<close> returned. A driver
  that returns nil with no error breaks the contract of the interface; the second statement
  dereferences the pointer, and the model panics there (\<open>None\<close>). The deferred function
  closes every element of \<open>toClose\<close> when the closure returns, and calling \<open>Close\<close> on
  a nil reader panics.
\<close>

definition has_nil :: "stream option list \<Rightarrow> bool" where
  "has_nil toClose = list_ex (\<lambda>c. c = None) toClose"

definition setup_body ::
  "world \<Rightarrow> bool \<Rightarrow> AllCheckpoints option \<Rightarrow> gostr list \<Rightarrow> 'st DomainDb
   \<Rightarrow> (error option \<times> 'st DomainDb) outcome" where
  "setup_body w alreadyHadCheckpoints checkpoints names s =
     (case setup_read w alreadyHadCheckpoints names s [] of
        Panic \<Rightarrow> Panic
      | Done (ret, s1, toClose) \<Rightarrow>
          let res =
            (case ret of
               Some r \<Rightarrow> Done (r, s1)
             | None \<Rightarrow>
                 if \<not> isRunning s1 then Done (None, s1)
                 else
                   (case checkpoints of
                      None \<Rightarrow> Panic
                    | Some cp \<Rightarrow>
                        let cps = cp\<lparr>Checkpoints := populate (dbs s1) names (Checkpoints cp)\<rparr>;
                            written = WriteCheckpoints (storage s1) cps (store s1);
                            s2 = s1\<lparr>store := snd written\<rparr>
                        in
                        (case fst written of
                           Some e \<Rightarrow>
                             Done (Some (Wrap ''failed to save checkpoints after initial load: %w'' e), s2)
                         | None \<Rightarrow> Done (None, s2))))
          in if has_nil toClose then Panic else res)"

text \<open>
  \<open>NewDomainDb\<close> returns Go's pair of an engine (\<open>None\<close> is nil) and an error. When the
  databases are loaded in the background, the closure runs later, in a goroutine, on the
  engine that is returned at once.
\<close>

definition NewDomainDb ::
  "world \<Rightarrow> 'st Options \<Rightarrow> ('st DomainDb option \<times> error option) outcome" where
  "NewDomainDb w options =
     (let s = new_DomainDb options;
          names = map fst (Sources options);
          rc = ReadCheckpoints (storage s) (store s);
          err = snd (fst rc);
          s0 = s\<lparr>store := snd rc\<rparr>
      in
      if err \<noteq> None \<and> \<not> errors_Is (the err) ENOENT
      then Done (None, Some (Wrap ''failed to load checkpoints during initialization: %w'' (the err)))
      else
        let alreadyHadCheckpoints = (err = None);
            checkpoints = (if err = None then fst (fst rc) else Some \<lparr>Checkpoints = []\<rparr>)
        in
        if LoadDatabasesInBackground options then Done (Some s0, None)
        else
          (case setup_body w alreadyHadCheckpoints checkpoints names s0 of
             Panic \<Rightarrow> Panic
           | Done (Some e, s1) \<Rightarrow> Done (None, None)
           | Done (None, s1) \<Rightarrow> Done (Some s1, None)))"

text \<open>
  An implementation of the interface that keeps the checkpoints and the database files
  in memory, as a test double would; it serves to run the engine on concrete inputs.
\<close>

record mem_store =
  mem_checkpoints :: "AllCheckpoints option"
  mem_files :: "(gostr \<times> gostr) list"

definition MemStorageDriver :: "mem_store StorageDriver" where
  "MemStorageDriver =
     \<lparr>WriteDatabase = (\<lambda>name input m.
        (case snd input of
           Some e \<Rightarrow> (Some (Wrap ''failed to copy input: %w'' e), m)
         | None \<Rightarrow> (None, m\<lparr>mem_files := map_set (mem_files m) name (fst input)\<rparr>))),
      ReadDatabase = (\<lambda>name m.
        (case map_of (mem_files m) name of
           None \<Rightarrow> ((None, Some (Wrap ''failed to open file: %w'' ENOENT)), m)
         | Some bs \<Rightarrow> ((Some (bs, None), None), m))),
      WriteCheckpoints = (\<lambda>cps m. (None, m\<lparr>mem_checkpoints := Some cps\<rparr>)),
      ReadCheckpoints = (\<lambda>m.
        (case mem_checkpoints m of
           None \<Rightarrow> ((None, Some (Wrap ''failed to open file: %w'' ENOENT)), m)
         | Some cps \<Rightarrow> ((Some cps, None), m)))\<rparr>"

section \<open>Filesystem storage driver (storage.go)\<close>

text \<open>
  The data directory as a map from path to file content, with the faults that the
  operating system may answer with: opening or renaming a given path fails, or writing to
  a path fails after so many bytes. \<open>trace\<close> records the system calls in order. A file
  is there for \<open>os.Stat\<close> exactly when the map has it.
\<close>

datatype open_flag = O_RDONLY | O_WRONLY | O_CREATE | O_TRUNC

datatype fs_op = Stat gostr | Rename gostr gostr | OpenFile gostr "open_flag list" | Write gostr

record disk =
  files :: "gostr \<rightharpoonup> gostr"
  open_fault :: "gostr \<Rightarrow> error option"
  rename_fault :: "gostr \<Rightarrow> error option"
  write_fault :: "gostr \<Rightarrow> (nat \<times> error) option"
  trace :: "fs_op list"

definition os_Stat :: "gostr \<Rightarrow> disk \<Rightarrow> bool \<times> disk" where
  "os_Stat path d = (files d path \<noteq> None, d\<lparr>trace := trace d @ [Stat path]\<rparr>)"

definition os_Rename :: "gostr \<Rightarrow> gostr \<Rightarrow> disk \<Rightarrow> error option \<times> disk" where
  "os_Rename oldpath newpath d =
     (let d1 = d\<lparr>trace := trace d @ [Rename oldpath newpath]\<rparr> in
      case rename_fault d oldpath of
        Some e \<Rightarrow> (Some e, d1)
      | None \<Rightarrow>
          (case files d oldpath of
             None \<Rightarrow> (Some (Wrap ''rename: %w'' ENOENT), d1)
           | Some c \<Rightarrow> (None, d1\<lparr>files := ((files d)(oldpath := None))(newpath \<mapsto> c)\<rparr>)))"

definition os_OpenFile :: "gostr \<Rightarrow> open_flag list \<Rightarrow> disk \<Rightarrow> error option \<times> disk" where
  "os_OpenFile path flags d =
     (let d1 = d\<lparr>trace := trace d @ [OpenFile path flags]\<rparr> in
      case open_fault d path of
        Some e \<Rightarrow> (Some e, d1)
      | None \<Rightarrow>
          (case files d path of
             None \<Rightarrow>
               if O_CREATE \<in> set flags then (None, d1\<lparr>files := (files d)(path \<mapsto> [])\<rparr>)
               else (Some (Wrap ''open: %w'' ENOENT), d1)
           | Some c \<Rightarrow>
               if O_TRUNC \<in> set flags then (None, d1\<lparr>files := (files d)(path \<mapsto> [])\<rparr>)
               else (None, d1)))"

text \<open>
  Writing \<open>bs\<close> through a file that was just opened: the bytes go over the content from
  offset 0, and what lies behind them stays.
\<close>

definition overwrite :: "gostr \<Rightarrow> gostr \<Rightarrow> gostr" where
  "overwrite old bs = bs @ drop (length bs) old"

definition file_Write :: "gostr \<Rightarrow> gostr \<Rightarrow> disk \<Rightarrow> error option \<times> disk" where
  "file_Write path bs d =
     (let d1 = d\<lparr>trace := trace d @ [Write path]\<rparr>;
          old = (case files d path of None \<Rightarrow> [] | Some c \<Rightarrow> c)
      in
      case write_fault d path of
        None \<Rightarrow> (None, d1\<lparr>files := (files d)(path \<mapsto> overwrite old bs)\<rparr>)
      | Some (n, e) \<Rightarrow>
          if n < length bs
          then (Some e, d1\<lparr>files := (files d)(path \<mapsto> overwrite old (take n bs))\<rparr>)
          else (None, d1\<lparr>files := (files d)(path \<mapsto> overwrite old bs)\<rparr>))"

text \<open>\<open>io.Copy\<close> from a stream into the file: a failed write ends it, else the stream's own error.\<close>

definition io_Copy :: "gostr \<Rightarrow> stream \<Rightarrow> disk \<Rightarrow> error option \<times> disk" where
  "io_Copy path input d =
     (case file_Write path (fst input) d of
        (Some e, d1) \<Rightarrow> (Some e, d1)
      | (None, d1) \<Rightarrow> (snd input, d1))"

definition Join :: "gostr \<Rightarrow> gostr \<Rightarrow> gostr" where
  "Join dir elem = dir @ [47] @ elem"

text \<open>\<open>url.QueryEscape\<close>, on the bytes of the name.\<close>

definition hex_digit :: "int \<Rightarrow> int" where
  "hex_digit n = (if n < 10 then 48 + n else 55 + n)"

definition escape_byte :: "int \<Rightarrow> gostr" where
  "escape_byte b =
     (if (97 \<le> b \<and> b \<le> 122) \<or> (65 \<le> b \<and> b \<le> 90) \<or> (48 \<le> b \<and> b \<le> 57)
         \<or> b = 45 \<or> b = 95 \<or> b = 46 \<or> b = 126
      then [b]
      else if b = 32 then [43]
      else [37, hex_digit (b div 16), hex_digit (b mod 16)])"

definition QueryEscape :: "gostr \<Rightarrow> gostr" where
  "QueryEscape name = concat (map escape_byte (utf8 name))"

record FsStorageDriver =
  dataDir :: gostr

definition checkpointsFilename :: gostr where
  "checkpointsFilename = str ''checkpoints.json''"

definition dbNameToFilename :: "gostr \<Rightarrow> error + gostr" where
  "dbNameToFilename name =
     (if len name > DbNameMaxSize then Inl ErrDbNameTooLong
      else Inr (QueryEscape name @ str ''.txt''))"

text \<open>
  The deferred function of \<open>WriteDatabase\<close> that puts the backup back. It is registered
  only when a backup was made, and looks at the local variable \<open>err\<close> as it stands when
  the method returns.
\<close>

definition restore_backup :: "bool \<Rightarrow> error option \<Rightarrow> gostr \<Rightarrow> gostr \<Rightarrow> disk \<Rightarrow> disk" where
  "restore_backup backedUp err bakFilePath filePath d =
     (if backedUp \<and> err \<noteq> None then snd (os_Rename bakFilePath filePath d) else d)"

text \<open>The part of \<open>WriteDatabase\<close> after the backup: open the target and copy the input.\<close>

definition write_target :: "gostr \<Rightarrow> gostr \<Rightarrow> bool \<Rightarrow> stream \<Rightarrow> disk \<Rightarrow> error option \<times> disk" where
  "write_target filePath bakFilePath backedUp input d =
     (case os_OpenFile filePath [O_CREATE, O_WRONLY] d of
        (Some err, d1) \<Rightarrow>
          (Some (Wrap ''failed to open file %s for writing database %s: %w'' err),
           restore_backup backedUp (Some err) bakFilePath filePath d1)
      | (None, d1) \<Rightarrow>
          (case io_Copy filePath input d1 of
             (Some err, d2) \<Rightarrow>
               (Some (Wrap ''failed to copy input to file %s for writing database %s: %w'' err),
                restore_backup backedUp (Some err) bakFilePath filePath d2)
           | (None, d2) \<Rightarrow> (None, restore_backup backedUp None bakFilePath filePath d2)))"

definition Fs_WriteDatabase :: "FsStorageDriver \<Rightarrow> gostr \<Rightarrow> stream \<Rightarrow> disk \<Rightarrow> error option \<times> disk" where
  "Fs_WriteDatabase s name input d =
     (case dbNameToFilename name of
        Inl err \<Rightarrow> (Some err, d)
      | Inr filename \<Rightarrow>
          let filePath = Join (dataDir s) filename;
              bakFilePath = Join (dataDir s) (filename @ str ''.bak'');
              st = os_Stat filePath d
          in
          if fst st
          then
            (case os_Rename filePath bakFilePath (snd st) of
               (Some err, d1) \<Rightarrow>
                 (Some (Wrap ''failed to move existing file %s to backup path %s: %w'' err), d1)
             | (None, d1) \<Rightarrow> write_target filePath bakFilePath True input d1)
          else write_target filePath bakFilePath False input (snd st))"

definition Fs_ReadDatabase ::
  "FsStorageDriver \<Rightarrow> gostr \<Rightarrow> disk \<Rightarrow> (stream option \<times> error option) \<times> disk" where
  "Fs_ReadDatabase s name d =
     (case dbNameToFilename name of
        Inl err \<Rightarrow> ((None, Some err), d)
      | Inr filename \<Rightarrow>
          let filePath = Join (dataDir s) filename in
          (case os_OpenFile filePath [O_RDONLY] d of
             (Some err, d1) \<Rightarrow>
               ((None, Some (Wrap ''failed to open file %s for database type %s: %w'' err)), d1)
           | (None, d1) \<Rightarrow>
               ((Some (case files d1 filePath of None \<Rightarrow> [] | Some c \<Rightarrow> c, None), None), d1)))"

text \<open>
  The checkpoints go through \<open>encoding/json\<close>, which is not code of this repository:
  the methods take the encoder and the decoder as parameters. \<open>enc\<close> gives the bytes
  that \<open>Encoder.Encode\<close> writes, \<open>dec\<close> what \<open>Decoder.Decode\<close> makes of a file's content.
\<close>

definition Fs_WriteCheckpoints ::
  "(AllCheckpoints \<Rightarrow> gostr) \<Rightarrow> FsStorageDriver \<Rightarrow> AllCheckpoints \<Rightarrow> disk \<Rightarrow> error option \<times> disk" where
  "Fs_WriteCheckpoints enc s checkpoints d =
     (let filePath = Join (dataDir s) checkpointsFilename in
      case os_OpenFile filePath [O_CREATE, O_WRONLY] d of
        (Some err, d1) \<Rightarrow>
          (Some (Wrap ''failed to open file %s for writing checkpoints: %w'' err), d1)
      | (None, d1) \<Rightarrow>
          (case file_Write filePath (enc checkpoints) d1 of
             (Some err, d2) \<Rightarrow>
               (Some (Wrap ''failed to encode checkpoints to JSON file at %s: %w'' err), d2)
           | (None, d2) \<Rightarrow> (None, d2)))"

definition Fs_ReadCheckpoints ::
  "(gostr \<Rightarrow> error + AllCheckpoints) \<Rightarrow> FsStorageDriver \<Rightarrow> disk
   \<Rightarrow> (AllCheckpoints option \<times> error option) \<times> disk" where
  "Fs_ReadCheckpoints dec s d =
     (let filePath = Join (dataDir s) checkpointsFilename in
      case os_OpenFile filePath [O_RDONLY] d of
        (Some err, d1) \<Rightarrow>
          ((None, Some (Wrap ''failed to open file %s for reading checkpoints: %w'' err)), d1)
      | (None, d1) \<Rightarrow>
          (case dec (case files d1 filePath of None \<Rightarrow> [] | Some c \<Rightarrow> c) of
             Inl err \<Rightarrow>
               ((None, Some (Wrap ''failed to decode checkpoints from JSON file at %s: %w'' err)), d1)
           | Inr res \<Rightarrow> ((Some res, None), d1)))"

text \<open>The four methods as an implementation of the interface.\<close>

definition FsDriver ::
  "(AllCheckpoints \<Rightarrow> gostr) \<Rightarrow> (gostr \<Rightarrow> error + AllCheckpoints) \<Rightarrow> FsStorageDriver
   \<Rightarrow> disk StorageDriver" where
  "FsDriver enc dec s =
     \<lparr>WriteDatabase = Fs_WriteDatabase s,
      ReadDatabase = Fs_ReadDatabase s,
      WriteCheckpoints = Fs_WriteCheckpoints enc s,
      ReadCheckpoints = Fs_ReadCheckpoints dec s\<rparr>"

text \<open>
  The compact text that Go's encoder writes for a checkpoints document, for names that
  need no escaping and are listed once each: the keys in byte order, a newline at the
  end. It serves to run \<open>Fs_WriteCheckpoints\<close> on concrete documents.
\<close>

function digits :: "int \<Rightarrow> gostr" where
  "digits n = (if n < 10 then [48 + n] else digits (n div 10) @ [48 + n mod 10])"
  by pat_completeness auto
termination
  by (relation "measure nat") auto

declare digits.simps [simp del]

definition itoa :: "int \<Rightarrow> gostr" where
  "itoa i = (if i < 0 then 45 # digits (- i) else digits i)"

fun key_le :: "gostr \<Rightarrow> gostr \<Rightarrow> bool" where
  "key_le [] b = True"
| "key_le (x # a) [] = False"
| "key_le (x # a) (y # b) = (x < y \<or> (x = y \<and> key_le a b))"

fun insert_entry :: "gostr \<times> Checkpoint \<Rightarrow> (gostr \<times> Checkpoint) list \<Rightarrow> (gostr \<times> Checkpoint) list" where
  "insert_entry e [] = [e]"
| "insert_entry e (f # fs) = (if key_le (fst e) (fst f) then e # f # fs else f # insert_entry e fs)"

fun render_entries :: "(gostr \<times> Checkpoint) list \<Rightarrow> gostr" where
  "render_entries [] = []"
| "render_entries [(k, c)] =
     [34] @ k @ str ''\":{\"LastUpdatedUnix\":'' @ itoa (cp_LastUpdatedUnix c) @ [125]"
| "render_entries ((k, c) # e # es) =
     [34] @ k @ str ''\":{\"LastUpdatedUnix\":'' @ itoa (cp_LastUpdatedUnix c) @ [125, 44]
     @ render_entries (e # es)"

definition render_checkpoints :: "AllCheckpoints \<Rightarrow> gostr" where
  "render_checkpoints doc =
     str ''{\"Checkpoints\":{'' @ render_entries (foldr insert_entry (Checkpoints doc) [])
     @ [125, 125, 10]"

text \<open>
  A stand-in for the profile on names made of letters, digits, hyphens and dots, where
  the UTS #46 mapping is ASCII lower-casing. It serves only to run the model on concrete
  ASCII inputs; the theorems hold for every profile.
\<close>

definition ascii_lookup :: "gostr \<Rightarrow> error + gostr" where
  "ascii_lookup s =
     (if list_all (\<lambda>r. isAlnum (toLower_rune r) \<or> r = 45 \<or> r = 46) s
      then Inr (ToLower s)
      else Inl (New ''idna: disallowed rune''))"

section \<open>The loader's tolerance, in the words of the specification\<close>

text \<open>
  A line counts when it is neither empty nor a comment; it is bad when the normalizer
  rejects it and good when the normalizer accepts it. \<open>tolerated p n lines\<close> are the lines
  that are looked at while \<open>n\<close> more failures are tolerated: the scan stops behind the
  line that brings the last tolerated failure.
\<close>

definition is_entry :: "gostr \<Rightarrow> bool" where
  "is_entry line = (line \<noteq> [] \<and> hd line \<noteq> 35)"

definition bad_line :: "(gostr \<Rightarrow> error + gostr) \<Rightarrow> gostr \<Rightarrow> bool" where
  "bad_line p line = (is_entry line \<and> isl (NormalizeDomainName p line))"

definition good_line :: "(gostr \<Rightarrow> error + gostr) \<Rightarrow> gostr \<Rightarrow> bool" where
  "good_line p line = (is_entry line \<and> \<not> isl (NormalizeDomainName p line))"

fun tolerated :: "(gostr \<Rightarrow> error + gostr) \<Rightarrow> nat \<Rightarrow> gostr list \<Rightarrow> gostr list" where
  "tolerated p n [] = []"
| "tolerated p n (line # rest) =
     (if n = 0 then []
      else line # tolerated p (if bad_line p line then n - 1 else n) rest)"

definition line_failure :: "(gostr \<Rightarrow> error + gostr) \<Rightarrow> gostr \<Rightarrow> error" where
  "line_failure p line =
     Wrap ''failed to normalize domain name %s: %w'' (projl (NormalizeDomainName p line))"

definition line_domain :: "(gostr \<Rightarrow> error + gostr) \<Rightarrow> gostr \<Rightarrow> gostr" where
  "line_domain p line = projr (NormalizeDomainName p line)"

definition scanned :: "world \<Rightarrow> stream \<Rightarrow> gostr list" where
  "scanned w reader = tolerated (uts46 w) maxFailures (scan_lines (fst reader))"

definition bad_lines :: "world \<Rightarrow> stream \<Rightarrow> gostr list" where
  "bad_lines w reader = filter (bad_line (uts46 w)) (scanned w reader)"

definition good_lines :: "world \<Rightarrow> stream \<Rightarrow> gostr list" where
  "good_lines w reader = filter (good_line (uts46 w)) (scanned w reader)"

text \<open>
  "Further lines are not scanned once that threshold is hit": the lines that the scanner
  delivers are the lines that are looked at, and no more.
\<close>

definition stops_at_threshold :: "(gostr \<Rightarrow> error + gostr) \<Rightarrow> gostr list \<Rightarrow> bool" where
  "stops_at_threshold p lines = (scans p lines 0 = length (tolerated p maxFailures lines))"

section \<open>The source opener's URLs, in the words of the specification\<close>

text \<open>
  A URL fetch has failed if the HTTP call errors, if the status is not 200, or if copying
  the body into the pipe errors. \<open>url_error\<close> is the error recorded for a failed URL,
  \<open>url_written\<close> the bytes of its body that reach the pipe.
\<close>

definition url_failed :: "(gostr \<Rightarrow> http_result) \<Rightarrow> gostr \<Rightarrow> bool" where
  "url_failed client u =
     (case client u of
        DoError err \<Rightarrow> True
      | Response status body \<Rightarrow> status \<noteq> 200 \<or> snd body \<noteq> None)"

definition url_error :: "(gostr \<Rightarrow> http_result) \<Rightarrow> gostr \<Rightarrow> error" where
  "url_error client u =
     (case client u of
        DoError err \<Rightarrow> Wrap ''failed to download database (source URL %s): %w'' err
      | Response status body \<Rightarrow>
          if status \<noteq> 200
          then New ''failed to download database because status code was not 200''
          else Wrap ''failed to download database (source URL %s, bytes written: %d): %w''
                 (the (snd body)))"

definition url_written :: "(gostr \<Rightarrow> http_result) \<Rightarrow> gostr \<Rightarrow> gostr" where
  "url_written client u =
     (case client u of
        DoError err \<Rightarrow> []
      | Response status body \<Rightarrow> if status \<noteq> 200 then [] else fst body)"

text \<open>
  A URL from which nothing reaches the pipe: the HTTP call errors or the status is not
  200.
\<close>

definition http_failed :: "(gostr \<Rightarrow> http_result) \<Rightarrow> gostr \<Rightarrow> bool" where
  "http_failed client u =
     (case client u of
        DoError err \<Rightarrow> True
      | Response status body \<Rightarrow> status \<noteq> 200)"

section \<open>Inputs that differ only in case\<close>




section \<open>Concrete inputs\<close>

text \<open>
  The values at which the theorems below are run: a world with the stand-in profile, HTTP
  clients that fail or answer, one source with one URL and one with two, engines with a
  loaded set, option records for construction, and data directories.
\<close>

definition w0 :: world where
  "w0 = \<lparr>uts46 = ascii_lookup, now = 1700000000, pulled = 0\<rparr>"

definition url_a :: gostr where
  "url_a = str ''https://lists.example/a.txt''"

definition url_b :: gostr where
  "url_b = str ''https://lists.example/b.txt''"

definition offline :: "gostr \<Rightarrow> http_result" where
  "offline u = DoError (New ''dial tcp: connection refused'')"

definition serving :: "gostr \<Rightarrow> http_result" where
  "serving u = Response 200 (str ''good.com'' @ [10], None)"

definition half_serving :: "gostr \<Rightarrow> http_result" where
  "half_serving u =
     (if u = url_a then Response 500 (str ''internal error'', None)
      else Response 200 (str ''good.com'' @ [10], None))"

definition src_one :: DataSource where
  "src_one = \<lparr>Urls = [url_a], Get = None, RefreshInterval = 3600\<rparr>"

definition src_two :: DataSource where
  "src_two = \<lparr>Urls = [url_a, url_b], Get = None, RefreshInterval = 3600\<rparr>"

definition disposable :: gostr where
  "disposable = str ''disposable''"

definition mem_empty :: mem_store where
  "mem_empty = \<lparr>mem_checkpoints = None, mem_files = []\<rparr>"

definition mem_checkpointed :: mem_store where
  "mem_checkpointed = \<lparr>mem_checkpoints = Some \<lparr>Checkpoints = []\<rparr>, mem_files = []\<rparr>"

definition entry_old :: dbSrcMap where
  "entry_old = \<lparr>Has = False, Src = src_one, Domains = {str ''old.com''}, LastUpdatedUnix = 5\<rparr>"

definition engine_old :: "mem_store DomainDb" where
  "engine_old =
     \<lparr>storage = MemStorageDriver, store = mem_empty, disableDl = False, httpClient = offline,
      dbs = [disposable \<mapsto> entry_old], isRunning = True\<rparr>"



definition list_text :: stream where
  "list_text =
     (str ''10minutemail.com'' @ [10] @ str ''# a comment'' @ [10, 10] @ str ''bad_name.com'' @ [10],
      None)"

definition ten_bad :: "gostr list" where
  "ten_bad = replicate 10 (str ''bad_name.com'')"

definition opts_no_cache :: "mem_store Options" where
  "opts_no_cache =
     \<lparr>opt_StorageDriver = MemStorageDriver, opt_store = mem_empty, HttpClient = offline,
      DisableDownload = True, LoadDatabasesInBackground = False,
      Sources = [(disposable, src_one)]\<rparr>"

definition opts_missing_file :: "mem_store Options" where
  "opts_missing_file =
     \<lparr>opt_StorageDriver = MemStorageDriver, opt_store = mem_checkpointed, HttpClient = serving,
      DisableDownload = False, LoadDatabasesInBackground = False,
      Sources = [(disposable, src_one)]\<rparr>"

definition opts_background :: "mem_store Options" where
  "opts_background =
     \<lparr>opt_StorageDriver = MemStorageDriver, opt_store = mem_empty, HttpClient = serving,
      DisableDownload = False, LoadDatabasesInBackground = True,
      Sources = [(disposable, src_one)]\<rparr>"

definition fs_driver :: FsStorageDriver where
  "fs_driver = \<lparr>dataDir = str ''/data''\<rparr>"

definition disk_cached :: disk where
  "disk_cached =
     \<lparr>files = [str ''/data/disposable.txt'' \<mapsto> str ''old.com'' @ [10]],
      open_fault = (\<lambda>p. None),
      rename_fault = (\<lambda>p. None),
      write_fault = (\<lambda>p. None),
      trace = []\<rparr>"

definition disk_full :: disk where
  "disk_full = disk_cached\<lparr>write_fault := (\<lambda>p. Some (3, New ''no space left on device''))\<rparr>"

definition doc_long :: AllCheckpoints where
  "doc_long = \<lparr>Checkpoints = [(disposable, \<lparr>cp_LastUpdatedUnix = 1700000000\<rparr>)]\<rparr>"

definition doc_short :: AllCheckpoints where
  "doc_short = \<lparr>Checkpoints = []\<rparr>"

definition disk_checkpointed :: disk where
  "disk_checkpointed =
     \<lparr>files = [str ''/data/checkpoints.json'' \<mapsto> render_checkpoints doc_long],
      open_fault = (\<lambda>p. None),
      rename_fault = (\<lambda>p. None),
      write_fault = (\<lambda>p. None),
      trace = []\<rparr>"

section \<open>Facts about the normalizer\<close>

lemma trim_leading_dots_Nil [simp]: "trim_leading_dots [] = []"
  by (subst trim_leading_dots.simps) simp

lemma trim_leading_dots_Cons [simp]:
  "trim_leading_dots (c # s) = (if c = dot then trim_leading_dots s else c # s)"
  by (subst trim_leading_dots.simps) (simp add: HasPrefix_def TrimPrefix_def)

lemmas normalize_eval =
  NormalizeDomain_def NewDomainNormalizer_def str_def TrimSpace_def isSpace_def
  dots_Replace_def stripInvisibleChars_def invisible_def HasSuffix_def HasPrefix_def
  TrimSuffix_def trim_trailing_dots_def dot_def ToLower_def toLower_rune_def
  isLDHOrPunycode_def utf8_def utf8_rune_def len_def isAlnum_def Let_def

text \<open>
  C1. The claim: after one trailing dot is removed, a leading or trailing dot that
  remains makes normalization fail. The code does not do that: its two \<open>for\<close> statements take the
  remaining dots off and go on. With any profile that maps \<open>example.com\<close> to itself,
  \<open>.example.com\<close> and \<open>example.com..\<close> are both accepted and normalize to
  \<open>example.com\<close>.
\<close>

theorem NormalizeDomain_accepts_extra_dots:
  assumes "p (str ''example.com'') = Inr (str ''example.com'')"
  shows "NormalizeDomain (NewDomainNormalizer p) (str ''.example.com'') = Inr (str ''example.com'')
       \<and> NormalizeDomain (NewDomainNormalizer p) (str ''example.com..'') = Inr (str ''example.com'')"
  using assms by (simp add: normalize_eval)

theorem NormalizeDomain_accepts_extra_dots_witness:
  "ascii_lookup (str ''example.com'') = Inr (str ''example.com'')
   \<and> NormalizeDomain (NewDomainNormalizer ascii_lookup) (str ''.example.com'') = Inr (str ''example.com'')
   \<and> NormalizeDomain (NewDomainNormalizer ascii_lookup) (str ''example.com..'') = Inr (str ''example.com'')"
proof -
  have h: "ascii_lookup (str ''example.com'') = Inr (str ''example.com'')"
    by code_simp
  show ?thesis
    using h NormalizeDomain_accepts_extra_dots [of ascii_lookup] by simp
qed





















section \<open>Facts about the loader, the source opener and the query\<close>

lemma tolerated_bad_le: "length (filter (bad_line p) (tolerated p n lines)) \<le> n"
proof (induction lines arbitrary: n)
  case Nil
  then show ?case by simp
next
  case (Cons line rest)
  show ?case
  proof (cases "n = 0")
    case True
    then show ?thesis by simp
  next
    case False
    then show ?thesis
      using Cons.IH [of "n - 1"] Cons.IH [of n] by auto
  qed
qed

lemma tolerated_append:
  "length (filter (bad_line p) (tolerated p n lines)) = n \<Longrightarrow>
   tolerated p n (lines @ extra) = tolerated p n lines"
proof (induction lines arbitrary: n)
  case Nil
  then show ?case by (cases extra) simp_all
next
  case (Cons line rest)
  show ?case
  proof (cases "n = 0")
    case True
    then show ?thesis by simp
  next
    case False
    show ?thesis
    proof (cases "bad_line p line")
      case True
      with False Cons.prems have "length (filter (bad_line p) (tolerated p (n - 1) rest)) = n - 1"
        by simp
      from Cons.IH [OF this] False True show ?thesis by simp
    next
      case nb: False
      with False Cons.prems have "length (filter (bad_line p) (tolerated p n rest)) = n"
        by simp
      from Cons.IH [OF this] False nb show ?thesis by simp
    qed
  qed
qed

lemma load_loop_tolerated:
  "length F \<le> maxFailures \<Longrightarrow>
   load_loop p lines D F g =
     (D \<union> line_domain p ` set (filter (good_line p) (tolerated p (maxFailures - length F) lines)),
      F @ map (line_failure p) (filter (bad_line p) (tolerated p (maxFailures - length F) lines)),
      g + length (filter (good_line p) (tolerated p (maxFailures - length F) lines)),
      length (tolerated p (maxFailures - length F) lines) < length lines)"
proof (induction lines arbitrary: D F g)
  case Nil
  then show ?case by simp
next
  case (Cons line rest)
  show ?case
  proof (cases "length F < maxFailures")
    case False
    with Cons.prems have "maxFailures - length F = 0" by simp
    with False show ?thesis by simp
  next
    case True
    then have n0: "maxFailures - length F \<noteq> 0" by simp
    show ?thesis
    proof (cases "is_entry line")
      case False
      then have skip: "line = [] \<or> hd line = 35" by (auto simp: is_entry_def)
      from False have nb: "\<not> bad_line p line" "\<not> good_line p line"
        by (auto simp: bad_line_def good_line_def)
      show ?thesis
        using True n0 skip nb Cons.IH [OF Cons.prems, of D g]
        by auto
    next
      case entry: True
      then have nskip: "\<not> (line = [] \<or> hd line = 35)" by (auto simp: is_entry_def)
      show ?thesis
      proof (cases "NormalizeDomainName p line")
        case (Inl err)
        with entry have b: "bad_line p line" "\<not> good_line p line"
          by (auto simp: bad_line_def good_line_def)
        have len: "length (F @ [line_failure p line]) \<le> maxFailures" using True by simp
        have m: "maxFailures - length (F @ [line_failure p line]) = maxFailures - length F - 1"
          by simp
        have lf: "line_failure p line = Wrap ''failed to normalize domain name %s: %w'' err"
          using Inl by (simp add: line_failure_def)
        show ?thesis
          using True n0 nskip b Inl Cons.IH [OF len, of D g]
          unfolding m lf [symmetric]
          by (simp add: lf)
      next
        case (Inr normalized)
        with entry have b: "\<not> bad_line p line" "good_line p line"
          by (auto simp: bad_line_def good_line_def)
        have ld: "line_domain p line = normalized" using Inr by (simp add: line_domain_def)
        show ?thesis
          using True n0 nskip b Inr Cons.IH [OF Cons.prems, of "insert normalized D" "g + 1"]
          by (simp add: ld)
      qed
    qed
  qed
qed

lemma load_loop_start:
  "load_loop p lines {} [] 0 =
     (line_domain p ` set (filter (good_line p) (tolerated p maxFailures lines)),
      map (line_failure p) (filter (bad_line p) (tolerated p maxFailures lines)),
      length (filter (good_line p) (tolerated p maxFailures lines)),
      length (tolerated p maxFailures lines) < length lines)"
  using load_loop_tolerated [of "[]" p lines "{}" 0] by simp

lemma tolerated_length_le: "length (tolerated p n lines) \<le> length lines"
  by (induction lines arbitrary: n) simp_all

lemma scans_tolerated:
  "k \<le> maxFailures \<Longrightarrow>
   scans p lines k =
     length (tolerated p (maxFailures - k) lines)
     + (if length (tolerated p (maxFailures - k) lines) < length lines then 1 else 0)"
proof (induction lines arbitrary: k)
  case Nil
  then show ?case by simp
next
  case (Cons line rest)
  show ?case
  proof (cases "k < maxFailures")
    case False
    with Cons.prems have "maxFailures - k = 0" by simp
    with False show ?thesis by simp
  next
    case True
    then have n0: "maxFailures - k \<noteq> 0" by simp
    show ?thesis
    proof (cases "is_entry line")
      case False
      then have skip: "line = [] \<or> hd line = 35" by (auto simp: is_entry_def)
      from False have nb: "\<not> bad_line p line" by (simp add: bad_line_def)
      show ?thesis using True n0 skip nb Cons.IH [OF Cons.prems] by auto
    next
      case entry: True
      then have nskip: "\<not> (line = [] \<or> hd line = 35)" by (auto simp: is_entry_def)
      show ?thesis
      proof (cases "NormalizeDomainName p line")
        case (Inl err)
        with entry have b: "bad_line p line" by (simp add: bad_line_def)
        have k1: "Suc k \<le> maxFailures" using True by simp
        have m: "maxFailures - Suc k = maxFailures - k - 1" by simp
        show ?thesis using True n0 nskip b Inl Cons.IH [OF k1] unfolding m by simp
      next
        case (Inr normalized)
        with entry have b: "\<not> bad_line p line" by (simp add: bad_line_def)
        show ?thesis using True n0 nskip b Inr Cons.IH [OF Cons.prems] by simp
      qed
    qed
  qed
qed

text \<open>
  C6. The claim: once the 10th failure is recorded no further lines are scanned. The
  code scans one more: the condition of the loop calls \<open>scanner.Scan()\<close> before it
  compares the number of failures with the threshold. On ten bad lines the scanner
  delivers ten lines; with one more line behind them it delivers eleven, although the
  10th failure was recorded on the tenth.
\<close>

theorem line_behind_tenth_failure_is_scanned:
  "length (fst (snd (load_loop (uts46 w0) ten_bad {} [] 0))) = 10
   \<and> scans (uts46 w0) ten_bad 0 = 10
   \<and> tolerated (uts46 w0) maxFailures (ten_bad @ [str ''10minutemail.com'']) = ten_bad
   \<and> scans (uts46 w0) (ten_bad @ [str ''10minutemail.com'']) 0 = 11
   \<and> \<not> stops_at_threshold (uts46 w0) (ten_bad @ [str ''10minutemail.com''])"
proof -
  have a: "length (fst (snd (load_loop (uts46 w0) ten_bad {} [] 0))) = 10" by code_simp
  have b: "scans (uts46 w0) ten_bad 0 = 10" by code_simp
  have c: "tolerated (uts46 w0) maxFailures (ten_bad @ [str ''10minutemail.com'']) = ten_bad"
    by code_simp
  have d: "scans (uts46 w0) (ten_bad @ [str ''10minutemail.com'']) 0 = 11" by code_simp
  have e: "\<not> stops_at_threshold (uts46 w0) (ten_bad @ [str ''10minutemail.com''])"
    by (simp add: stops_at_threshold_def c d) (simp add: ten_bad_def)
  from a b c d e show ?thesis by blast
qed

text \<open>
  C6, amended. For every input stream the loader tolerates at most 10 normalization
  failures. Once the 10th failure is recorded the scanner is advanced at most once more,
  and the line it then delivers is dropped unread: no line behind the one that brought
  the 10th failure is normalized, counted or added to the set. With the bad and the good
  lines among the lines looked at: the load fails exactly when there are more bad lines
  than good ones, and the error then wraps the join of the failures of the bad lines;
  else it succeeds, bad lines or not, and the entry's set becomes the normalized good
  lines. For the scanning loop itself: once it has recorded 10 failures on some lines,
  lines that follow change neither the set nor the failures nor the count of good lines,
  and the loop then ends with a line in hand.
\<close>

theorem loadDomainsFromReader_tolerance:
  assumes "dbs s name = Some data"
  shows
    "length (bad_lines w reader) \<le> 10
     \<and> loadDomainsFromReader w s reader name =
         (if length (bad_lines w reader) > length (good_lines w reader)
          then Done (Some (Wrap ''encountered %d parse failures while loading datacenter ranges, but only %d lines were successfully parsed: %w''
                             (Joined (map (line_failure (uts46 w)) (bad_lines w reader)))), s)
          else Done (None, s\<lparr>dbs := (dbs s)(name \<mapsto>
                 data\<lparr>Domains := line_domain (uts46 w) ` set (good_lines w reader)\<rparr>)\<rparr>))
     \<and> scans (uts46 w) (scan_lines (fst reader)) 0 =
         length (scanned w reader)
         + (if length (scanned w reader) < length (scan_lines (fst reader)) then 1 else 0)
     \<and> (\<forall>lines extra.
           length (fst (snd (load_loop (uts46 w) lines {} [] 0))) = 10 \<longrightarrow>
           load_loop (uts46 w) (lines @ extra) {} [] 0 =
             (fst (load_loop (uts46 w) lines {} [] 0),
              fst (snd (load_loop (uts46 w) lines {} [] 0)),
              fst (snd (snd (load_loop (uts46 w) lines {} [] 0))),
              snd (snd (snd (load_loop (uts46 w) lines {} [] 0))) \<or> extra \<noteq> []))"
proof (intro conjI allI impI)
  show "length (bad_lines w reader) \<le> 10"
    using tolerated_bad_le [of "uts46 w" maxFailures "scan_lines (fst reader)"]
    by (simp add: bad_lines_def scanned_def maxFailures_def)
next
  show "loadDomainsFromReader w s reader name =
         (if length (bad_lines w reader) > length (good_lines w reader)
          then Done (Some (Wrap ''encountered %d parse failures while loading datacenter ranges, but only %d lines were successfully parsed: %w''
                             (Joined (map (line_failure (uts46 w)) (bad_lines w reader)))), s)
          else Done (None, s\<lparr>dbs := (dbs s)(name \<mapsto>
                 data\<lparr>Domains := line_domain (uts46 w) ` set (good_lines w reader)\<rparr>)\<rparr>))"
    using assms
    by (simp add: loadDomainsFromReader_def load_loop_start bad_lines_def good_lines_def scanned_def)
next
  show "scans (uts46 w) (scan_lines (fst reader)) 0 =
         length (scanned w reader)
         + (if length (scanned w reader) < length (scan_lines (fst reader)) then 1 else 0)"
    using scans_tolerated [of 0 "uts46 w" "scan_lines (fst reader)"]
    by (simp add: scanned_def)
next
  fix lines extra
  assume "length (fst (snd (load_loop (uts46 w) lines {} [] 0))) = 10"
  then have "length (filter (bad_line (uts46 w)) (tolerated (uts46 w) maxFailures lines)) = maxFailures"
    by (simp add: load_loop_start maxFailures_def)
  then have eq: "tolerated (uts46 w) maxFailures (lines @ extra) = tolerated (uts46 w) maxFailures lines"
    by (rule tolerated_append)
  have le: "length (tolerated (uts46 w) maxFailures lines) \<le> length lines"
    by (rule tolerated_length_le)
  have "(length (tolerated (uts46 w) maxFailures lines) < length lines + length extra)
          = (length (tolerated (uts46 w) maxFailures lines) < length lines \<or> extra \<noteq> [])"
    using le by (cases extra) auto
  then show "load_loop (uts46 w) (lines @ extra) {} [] 0 =
             (fst (load_loop (uts46 w) lines {} [] 0),
              fst (snd (load_loop (uts46 w) lines {} [] 0)),
              fst (snd (snd (load_loop (uts46 w) lines {} [] 0))),
              snd (snd (snd (load_loop (uts46 w) lines {} [] 0))) \<or> extra \<noteq> [])"
    by (simp add: load_loop_start eq)
qed

lemma fetch_urls_eq:
  "fetch_urls client urls out F =
     (out @ concat (map (\<lambda>u. url_written client u @ [10]) urls),
      F @ map (url_error client) (filter (url_failed client) urls))"
proof (induction urls arbitrary: out F)
  case Nil
  then show ?case by simp
next
  case (Cons u urls)
  show ?case
  proof (cases "client u")
    case (DoError err)
    then show ?thesis
      by (simp add: Cons.IH url_written_def url_error_def url_failed_def)
  next
    case (Response status body)
    then show ?thesis
      by (cases "snd body") (simp_all add: Cons.IH url_written_def url_error_def url_failed_def)
  qed
qed

lemma length_filter_all: "(length (filter P xs) = length xs) = list_all P xs"
proof (induction xs)
  case Nil
  then show ?case by simp
next
  case (Cons x xs)
  have le: "length (filter P xs) \<le> length xs" by simp
  show ?case
  proof (cases "P x")
    case True
    with Cons show ?thesis by simp
  next
    case False
    have "length (filter P xs) \<noteq> Suc (length xs)" using le by linarith
    with False show ?thesis by simp
  qed
qed

lemma filter_all: "list_all P xs \<Longrightarrow> filter P xs = xs"
  by (induction xs) auto

text \<open>
  C9. Opening a source in URL mode (no \<open>Get\<close> function, at least one URL) gives a stream
  with the bodies that reached the pipe, a newline behind each URL. If every URL failed
  the stream ends with the join of the per-URL errors and the sentinel
  \<open>ErrAllUrlsFailed\<close>, which \<open>errors.Is\<close> finds in it; if at least one URL succeeded
  the stream ends cleanly and no failure is in it.
\<close>

theorem openDataSource_url_mode:
  assumes "Get src = None" and "Urls src \<noteq> []"
  shows
    "openDataSource client src =
       Inr (concat (map (\<lambda>u. url_written client u @ [10]) (Urls src)),
            if list_all (url_failed client) (Urls src)
            then Some (Joined (map (url_error client) (Urls src) @ [ErrAllUrlsFailed]))
            else None)
     \<and> errors_Is (Joined (map (url_error client) (Urls src) @ [ErrAllUrlsFailed])) ErrAllUrlsFailed"
proof
  show "openDataSource client src =
       Inr (concat (map (\<lambda>u. url_written client u @ [10]) (Urls src)),
            if list_all (url_failed client) (Urls src)
            then Some (Joined (map (url_error client) (Urls src) @ [ErrAllUrlsFailed]))
            else None)"
    using assms
    by (simp add: openDataSource_def url_pipe_def fetch_urls_eq length_filter_all filter_all)
next
  show "errors_Is (Joined (map (url_error client) (Urls src) @ [ErrAllUrlsFailed])) ErrAllUrlsFailed"
    by simp
qed




section \<open>Facts about the refresh step and the startup\<close>

lemma Split_newlines: "Split (replicate n 10) 10 = replicate (Suc n) []"
  by (induction n) simp_all

lemma raw_lines_newlines: "raw_lines (replicate n 10) = replicate n []"
proof -
  have "butlast (replicate (Suc n) ([]::gostr)) = replicate n []"
    by (simp add: butlast_conv_take del: replicate_Suc)
  moreover have "last (replicate (Suc n) ([]::gostr)) = []"
    by (simp del: replicate_Suc)
  ultimately show ?thesis
    by (simp add: raw_lines_def Split_newlines Let_def del: replicate_Suc)
qed

lemma fits_token_Nil: "fits_token []"
  by (simp add: fits_token_def len_def utf8_def MaxScanTokenSize_def)

lemma scan_lines_newlines: "scan_lines (replicate n 10) = replicate n []"
  by (simp add: scan_lines_def raw_lines_newlines fits_token_Nil dropCR_def)

lemma token_too_long_newlines: "\<not> token_too_long (replicate n 10)"
  using fits_token_Nil by (simp add: token_too_long_def raw_lines_newlines list_all_iff)

lemma load_loop_empty_lines:
  "load_loop p (replicate n []) {} [] 0 = ({}, [], 0, False)"
  by (induction n) (simp_all add: maxFailures_def)

lemma http_failed_written: "http_failed client u \<Longrightarrow> url_written client u = []"
  by (auto simp: http_failed_def url_written_def split: http_result.splits)

lemma http_failed_url_failed: "http_failed client u \<Longrightarrow> url_failed client u"
  by (auto simp: http_failed_def url_failed_def split: http_result.splits)

lemma all_failed_written:
  "list_all (http_failed client) urls \<Longrightarrow>
   concat (map (\<lambda>u. url_written client u @ [10]) urls) = replicate (length urls) 10"
  by (induction urls) (simp_all add: http_failed_written)

lemma all_failed_url_failed:
  "list_all (http_failed client) urls \<Longrightarrow> list_all (url_failed client) urls"
  by (induction urls) (simp_all add: http_failed_url_failed)

lemma openDataSource_all_failed:
  assumes "Get src = None" and "Urls src \<noteq> []" and "list_all (http_failed client) (Urls src)"
  shows "openDataSource client src =
           Inr (replicate (length (Urls src)) 10,
                Some (Joined (map (url_error client) (Urls src) @ [ErrAllUrlsFailed])))"
  using assms
  by (simp add: openDataSource_def url_pipe_def fetch_urls_eq length_filter_all filter_all
        all_failed_written all_failed_url_failed)

text \<open>
  C5. The claim: a refresh that fails because all URLs failed leaves the set of a loaded
  name as it was. The code does not do that. When the HTTP call errors or the status is
  not 200 for every URL, the stream holds one newline per URL and ends with the error;
  the scanner stops on the error, the loader never looks at \<open>scanner.Err()\<close>, finds no
  bad line, and puts the empty set in place. The refresh then writes the newlines to the
  storage and returns whatever the storage writer returned: no error when the write went
  well.
\<close>

theorem refresh_with_all_urls_failed_empties_set:
  assumes "dbs s name = Some data"
    and "Get (Src data) = None"
    and "Urls (Src data) \<noteq> []"
    and "list_all (http_failed (httpClient s)) (Urls (Src data))"
  shows
    "DownloadAndLoadDatabase w s name =
       (let written = WriteDatabase (storage s) name
                        (replicate (length (Urls (Src data))) 10, None) (store s)
        in Done (case fst written of
                   Some err \<Rightarrow> Some (Wrap ''failed to write database with name %s: %w'' err)
                 | None \<Rightarrow> None,
                 s\<lparr>dbs := (dbs s)(name \<mapsto> data\<lparr>Domains := {}\<rparr>), store := snd written\<rparr>))"
proof -
  let ?r = "(replicate (length (Urls (Src data))) 10,
             Some (Joined (map (url_error (httpClient s)) (Urls (Src data)) @ [ErrAllUrlsFailed])))"
  have op: "openDataSource (httpClient s) (Src data) = Inr ?r"
    using assms(2-4) by (rule openDataSource_all_failed)
  have ld: "loadDomainsFromReader w s ?r name =
              Done (None, s\<lparr>dbs := (dbs s)(name \<mapsto> data\<lparr>Domains := {}\<rparr>)\<rparr>)"
    using assms(1)
    by (simp add: loadDomainsFromReader_def scan_lines_newlines load_loop_empty_lines)
  have te: "teed w ?r = replicate (length (Urls (Src data))) 10"
    by (simp add: teed_def scan_lines_newlines load_loop_empty_lines token_too_long_newlines)
  show ?thesis
    using assms(1)
    by (simp add: DownloadAndLoadDatabase_def op ld te Let_def split: option.splits)
qed

text \<open>
  The other two ways in which a refresh fails do leave the sets alone: a source that
  cannot be opened ends the refresh before anything is loaded, and a load that fails has
  not touched the entries.
\<close>

lemma refresh_source_error_keeps_engine:
  assumes "dbs s name = Some data"
    and "openDataSource (httpClient s) (Src data) = Inl err"
  shows "DownloadAndLoadDatabase w s name =
           Done (Some (Wrap ''failed to read from source of data with name %s: %w'' err), s)"
  using assms by (simp add: DownloadAndLoadDatabase_def)

lemma loadDomainsFromReader_failure_keeps:
  "loadDomainsFromReader w s reader name = Done (Some e, s') \<Longrightarrow> s' = s"
  by (auto simp: loadDomainsFromReader_def Let_def split: prod.splits if_splits option.splits)

lemma refresh_parse_error_keeps_sets:
  assumes "dbs s name = Some data"
    and "openDataSource (httpClient s) (Src data) = Inr reader"
    and "loadDomainsFromReader w s reader name = Done (Some e, s1)"
  shows "case DownloadAndLoadDatabase w s name of
           Done (r, s') \<Rightarrow>
             r = Some (Wrap ''failed to parse database with name %s: %w'' e) \<and> dbs s' = dbs s
         | Panic \<Rightarrow> False"
proof -
  have "s1 = s" using assms(3) by (rule loadDomainsFromReader_failure_keeps)
  then show ?thesis
    using assms by (simp add: DownloadAndLoadDatabase_def Let_def)
qed

lemma NormalizeDomain_not_NotInitialized:
  "NormalizeDomain n input \<noteq> Inl (NotInitializedError x)"
proof -
  have cl: "\<And>ls. check_labels ls \<noteq> Some (NotInitializedError x)"
  proof -
    fix ls show "check_labels ls \<noteq> Some (NotInitializedError x)"
      by (induction ls) auto
  qed
  show ?thesis
    using cl
    by (auto simp: NormalizeDomain_def Let_def split: sum.splits option.splits if_splits)
qed

lemma dbs_new_DomainDb:
  "dbs (new_DomainDb options) name = map_option new_dbSrcMap (map_of (Sources options) name)"
  by (simp add: new_DomainDb_def map_of_map)

text \<open>
  C10. For a configured name the entry made at construction has the empty set, and the
  engine that a construction in the background returns is this initial one. A load that
  fails leaves the engine as it is. On an entry with the empty set a query with a domain
  that normalizes returns false with no error, and no query ever returns the error "not
  initialized".
\<close>

theorem unloaded_database_answers_false:
  assumes "name \<in> fst ` set (Sources options)"
  shows
    "(\<exists>src. dbs (new_DomainDb options) name = Some (new_dbSrcMap src))
     \<and> (\<forall>src. Domains (new_dbSrcMap src) = {})
     \<and> (LoadDatabasesInBackground options
          \<and> (snd (fst (ReadCheckpoints (opt_StorageDriver options) (opt_store options))) = None
               \<or> errors_Is (the (snd (fst (ReadCheckpoints (opt_StorageDriver options)
                                               (opt_store options))))) ENOENT) \<longrightarrow>
        NewDomainDb w options =
          Done (Some ((new_DomainDb options)
                  \<lparr>store := snd (ReadCheckpoints (opt_StorageDriver options) (opt_store options))\<rparr>),
                None))
     \<and> (\<forall>(s :: 'a DomainDb) data raw c.
           dbs s name = Some data \<and> Domains data = {}
           \<and> NormalizeDomainName (uts46 w) raw = Inr c \<longrightarrow>
           DoesDbHaveDomain w s name raw = Inr False)
     \<and> (\<forall>(s :: 'a DomainDb) raw x. DoesDbHaveDomain w s name raw \<noteq> Inl (NotInitializedError x))
     \<and> (\<forall>(s :: 'a DomainDb) reader e s'.
           loadDomainsFromReader w s reader name = Done (Some e, s') \<longrightarrow> s' = s)"
proof (intro conjI allI impI)
  from assms obtain src where "map_of (Sources options) name = Some src"
    by (metis domD dom_map_of_conv_image_fst)
  then have "dbs (new_DomainDb options) name = Some (new_dbSrcMap src)"
    by (simp add: dbs_new_DomainDb)
  then show "\<exists>src. dbs (new_DomainDb options) name = Some (new_dbSrcMap src)" ..
next
  fix src show "Domains (new_dbSrcMap src) = {}" by (simp add: new_dbSrcMap_def)
next
  assume "LoadDatabasesInBackground options
          \<and> (snd (fst (ReadCheckpoints (opt_StorageDriver options) (opt_store options))) = None
               \<or> errors_Is (the (snd (fst (ReadCheckpoints (opt_StorageDriver options)
                                               (opt_store options))))) ENOENT)"
  then show "NewDomainDb w options =
          Done (Some ((new_DomainDb options)
                  \<lparr>store := snd (ReadCheckpoints (opt_StorageDriver options) (opt_store options))\<rparr>),
                None)"
    by (auto simp: NewDomainDb_def Let_def new_DomainDb_def)
next
  fix s :: "'a DomainDb" and data raw c
  assume "dbs s name = Some data \<and> Domains data = {} \<and> NormalizeDomainName (uts46 w) raw = Inr c"
  then show "DoesDbHaveDomain w s name raw = Inr False"
    by (simp add: DoesDbHaveDomain_def)
next
  fix s :: "'a DomainDb" and raw x
  show "DoesDbHaveDomain w s name raw \<noteq> Inl (NotInitializedError x)"
    using NormalizeDomain_not_NotInitialized [of "NewDomainNormalizer (uts46 w)" raw x]
    by (auto simp: DoesDbHaveDomain_def NormalizeDomainName_def split: option.splits sum.splits)
next
  fix s :: "'a DomainDb" and reader e s'
  assume "loadDomainsFromReader w s reader name = Done (Some e, s')"
  then show "s' = s" by (rule loadDomainsFromReader_failure_keeps)
qed


lemma setup_one_keeps_nil:
  "has_nil toClose \<Longrightarrow> setup_one w had name s toClose = Done (ret, s', toClose') \<Longrightarrow>
   has_nil toClose'"
  by (auto simp: setup_one_def Let_def has_nil_def split: if_splits outcome.splits prod.splits)

lemma setup_read_keeps_nil:
  "has_nil toClose \<Longrightarrow> setup_read w had names s toClose = Done (ret, s', toClose') \<Longrightarrow>
   has_nil toClose'"
proof (induction names arbitrary: s toClose)
  case Nil
  then show ?case by simp
next
  case (Cons name names)
  show ?case
  proof (cases "setup_one w had name s toClose")
    case Panic
    with Cons.prems show ?thesis by simp
  next
    case (Done x)
    obtain r s1 tc1 where x: "x = (r, s1, tc1)" by (cases x)
    have nil1: "has_nil tc1" using Cons.prems(1) Done x by (simp add: setup_one_keeps_nil)
    show ?thesis
    proof (cases r)
      case None
      with Cons.prems(2) Done x have "setup_read w had names s1 tc1 = Done (ret, s', toClose')"
        by simp
      with nil1 show ?thesis by (rule Cons.IH)
    next
      case (Some v)
      with Cons.prems(2) Done x have "toClose' = tc1" by simp
      with nil1 show ?thesis by simp
    qed
  qed
qed

lemma setup_one_nil_reader:
  assumes "ReadDatabase (storage s) name (store s) = ((None, Some e), st)"
    and "errors_Is e ENOENT"
    and "setup_one w True name s toClose = Done (ret, s', toClose')"
    and "isRunning s"
  shows "has_nil toClose'"
  using assms
  by (auto simp: setup_one_def Let_def has_nil_def split: if_splits outcome.splits prod.splits)

lemma setup_read_nil_reader:
  assumes "isRunning s"
    and "ReadDatabase (storage s) name (store s) = ((None, Some e), st)"
    and "errors_Is e ENOENT"
    and "setup_read w True (name # names) s toClose = Done (ret, s', toClose')"
  shows "has_nil toClose'"
proof (cases "setup_one w True name s toClose")
  case Panic
  with assms(4) show ?thesis by simp
next
  case (Done x)
  obtain r s1 tc1 where x: "x = (r, s1, tc1)" by (cases x)
  have nil1: "has_nil tc1"
    using assms(2,3) Done [unfolded x] assms(1) by (rule setup_one_nil_reader)
  show ?thesis
  proof (cases r)
    case None
    with assms(4) Done x have "setup_read w True names s1 tc1 = Done (ret, s', toClose')"
      by simp
    with nil1 show ?thesis by (rule setup_read_keeps_nil)
  next
    case (Some v)
    with assms(4) Done x have "toClose' = tc1" by simp
    with nil1 show ?thesis by simp
  qed
qed

lemma setup_body_panics:
  assumes "\<And>ret s' toClose'. setup_read w had names s [] = Done (ret, s', toClose') \<Longrightarrow> has_nil toClose'"
  shows "setup_body w had cps names s = Panic"
proof (cases "setup_read w had names s []")
  case Panic
  then show ?thesis by (simp add: setup_body_def)
next
  case (Done x)
  obtain r s1 tc1 where x: "x = (r, s1, tc1)" by (cases x)
  from assms Done x have "has_nil tc1" by simp
  then show ?thesis
    using Done x by (simp add: setup_body_def has_nil_def Let_def)
qed

text \<open>
  C4. The claim: when the checkpoints exist and \<open>ReadDatabase\<close> reports that a
  database is not there, startup tolerates it, downloads the database and completes. The
  code does not complete: the nil reader has been appended to \<open>toClose\<close>, and the
  deferred function calls \<open>Close\<close> on it when the closure returns. For the name that the
  loop visits first, a synchronous construction panics, whatever the download does.
\<close>

theorem NewDomainDb_panics_on_missing_cache_file:
  assumes "\<not> LoadDatabasesInBackground options"
    and "Sources options = (name, src) # rest"
    and "ReadCheckpoints (opt_StorageDriver options) (opt_store options) = ((Some cps, None), st1)"
    and "ReadDatabase (opt_StorageDriver options) name st1 = ((None, Some e), st2)"
    and "errors_Is e ENOENT"
  shows "NewDomainDb w options = Panic"
proof -
  let ?s0 = "(new_DomainDb options)\<lparr>store := st1\<rparr>"
  have run: "isRunning ?s0" by (simp add: new_DomainDb_def)
  have rd: "ReadDatabase (storage ?s0) name (store ?s0) = ((None, Some e), st2)"
    using assms(4) by (simp add: new_DomainDb_def)
  have "setup_body w True (Some cps) (name # map fst rest) ?s0 = Panic"
    by (rule setup_body_panics) (rule setup_read_nil_reader [OF run rd assms(5)])
  then show ?thesis
    using assms(1-3)
    by (simp add: NewDomainDb_def Let_def new_DomainDb_def)
qed

text \<open>
  C3. The claim: a synchronous construction in which a step fails reports the failure as
  an error, and a nil error comes with an engine. The code returns a nil engine and a nil
  error when the closure fails: with no checkpoints and no cached file, and downloading
  disabled, the closure fails with \<open>ErrNoCacheAndNoDownload\<close> and the construction
  returns the pair of nil and nil.
\<close>

theorem NewDomainDb_returns_nil_nil:
  assumes "\<not> LoadDatabasesInBackground options"
    and "DisableDownload options"
    and "Sources options = (name, src) # rest"
    and "ReadCheckpoints (opt_StorageDriver options) (opt_store options) = ((None, Some e), st1)"
    and "errors_Is e ENOENT"
  shows "NewDomainDb w options = Done (None, None)"
proof -
  let ?s0 = "(new_DomainDb options)\<lparr>store := st1\<rparr>"
  have one: "setup_one w False name ?s0 [] =
          Done (Some (Some (Wrap ''cannot download database with name %s during initialization: %w''
                                   ErrNoCacheAndNoDownload)), ?s0, [])"
    using assms(2) by (simp add: setup_one_def load_or_download_def new_DomainDb_def Let_def)
  have "setup_body w False (Some \<lparr>Checkpoints = []\<rparr>) (name # map fst rest) ?s0 =
          Done (Some (Wrap ''cannot download database with name %s during initialization: %w''
                                   ErrNoCacheAndNoDownload), ?s0)"
    by (simp add: setup_body_def one has_nil_def)
  then show ?thesis
    using assms(1,3,4,5)
    by (simp add: NewDomainDb_def Let_def new_DomainDb_def)
qed

section \<open>Facts about the filesystem driver\<close>

lemma Join_bak_neq: "Join dir (f @ str ''.bak'') \<noteq> Join dir f"
  by (simp add: Join_def str_def)

lemma restore_backup_files:
  assumes "files d bak = Some old" and "rename_fault d bak = None"
  shows "files (restore_backup True (Some err) bak fp d) fp = Some old"
  using assms by (simp add: restore_backup_def os_Rename_def Let_def)

lemma restore_backup_trace:
  "\<exists>ops. trace (restore_backup b err bak fp d) = trace d @ ops"
  by (auto simp: restore_backup_def os_Rename_def Let_def split: option.splits)

lemma os_OpenFile_faults:
  "os_OpenFile p fl d = (r, d') \<Longrightarrow>
   rename_fault d' = rename_fault d \<and> write_fault d' = write_fault d \<and> open_fault d' = open_fault d"
  by (auto simp: os_OpenFile_def Let_def split: option.splits if_splits)

lemma file_Write_faults:
  "file_Write p bs d = (r, d') \<Longrightarrow>
   rename_fault d' = rename_fault d \<and> write_fault d' = write_fault d \<and> open_fault d' = open_fault d"
  by (auto simp: file_Write_def Let_def split: option.splits if_splits prod.splits)

lemma io_Copy_faults:
  "io_Copy p input d = (r, d') \<Longrightarrow>
   rename_fault d' = rename_fault d \<and> write_fault d' = write_fault d \<and> open_fault d' = open_fault d"
  by (auto simp: io_Copy_def split: option.splits prod.splits dest: file_Write_faults)

lemma os_OpenFile_other:
  "os_OpenFile p fl d = (r, d') \<Longrightarrow> q \<noteq> p \<Longrightarrow> files d' q = files d q"
  by (auto simp: os_OpenFile_def Let_def split: option.splits if_splits)

lemma file_Write_other:
  "file_Write p bs d = (r, d') \<Longrightarrow> q \<noteq> p \<Longrightarrow> files d' q = files d q"
  by (auto simp: file_Write_def Let_def split: option.splits if_splits prod.splits)

lemma io_Copy_other:
  "io_Copy p input d = (r, d') \<Longrightarrow> q \<noteq> p \<Longrightarrow> files d' q = files d q"
  by (auto simp: io_Copy_def split: option.splits prod.splits dest: file_Write_other)

lemma os_OpenFile_created:
  "os_OpenFile p [O_CREATE, O_WRONLY] d = (None, d') \<Longrightarrow> files d p = None \<Longrightarrow> files d' p = Some []"
  by (auto simp: os_OpenFile_def Let_def split: option.splits if_splits)

lemma io_Copy_done:
  "io_Copy p input d = (None, d') \<Longrightarrow> files d p = Some [] \<Longrightarrow>
   files d' p = Some (fst input) \<and> snd input = None"
  by (auto simp: io_Copy_def file_Write_def overwrite_def Let_def
           split: option.splits prod.splits if_splits)

lemma write_target_backed_up:
  assumes "files d fp = None" and "files d bak = Some old" and "rename_fault d bak = None"
    and "bak \<noteq> fp"
    and "write_target fp bak True input d = (res, d')"
  shows "(res \<noteq> None \<longrightarrow> files d' fp = Some old)
       \<and> (res = None \<longrightarrow> files d' fp = Some (fst input) \<and> files d' bak = Some old \<and> snd input = None)"
proof (cases "os_OpenFile fp [O_CREATE, O_WRONLY] d")
  case (Pair oerr d1)
  have f1: "rename_fault d1 bak = None" using os_OpenFile_faults [OF Pair] assms(3) by simp
  have b1: "files d1 bak = Some old" using os_OpenFile_other [OF Pair assms(4)] assms(2) by simp
  show ?thesis
  proof (cases oerr)
    case (Some err)
    with Pair assms(5) have "res = Some (Wrap ''failed to open file %s for writing database %s: %w'' err)"
      and "d' = restore_backup True (Some err) bak fp d1"
      by (simp_all add: write_target_def)
    then show ?thesis using restore_backup_files [OF b1 f1] by simp
  next
    case None
    have c1: "files d1 fp = Some []" using Pair None assms(1) by (simp add: os_OpenFile_created)
    show ?thesis
    proof (cases "io_Copy fp input d1")
      case cp: (Pair cerr d2)
      have f2: "rename_fault d2 bak = None" using io_Copy_faults [OF cp] f1 by simp
      have b2: "files d2 bak = Some old" using io_Copy_other [OF cp assms(4)] b1 by simp
      show ?thesis
      proof (cases cerr)
        case (Some err)
        with Pair None cp assms(5) have "res = Some (Wrap ''failed to copy input to file %s for writing database %s: %w'' err)"
          and "d' = restore_backup True (Some err) bak fp d2"
          by (simp_all add: write_target_def)
        then show ?thesis using restore_backup_files [OF b2 f2] by simp
      next
        case cnone: None
        with Pair None cp assms(5) have "res = None" and "d' = d2"
          by (simp_all add: write_target_def restore_backup_def)
        then show ?thesis using io_Copy_done [OF cp [unfolded cnone] c1] b2 by simp
      qed
    qed
  qed
qed

lemma write_target_trace:
  "\<exists>ops. trace (snd (write_target fp bak b input d)) = trace d @ OpenFile fp [O_CREATE, O_WRONLY] # ops"
  by (auto simp: write_target_def os_OpenFile_def io_Copy_def file_Write_def restore_backup_def
        os_Rename_def Let_def split: option.splits prod.splits if_splits)

text \<open>
  C8. When the target file of \<open>WriteDatabase\<close> exists, the first system calls are the
  \<open>Stat\<close> of the target and its renaming to the backup path, and the target is opened
  only after that. If the method returns an error, the target holds again what it held
  before the call (given that the renaming that puts the backup back does not fail
  itself). If it returns no error, the target holds the bytes of the stream, which ended
  without an error, and the backup holds the previous content.
\<close>

theorem WriteDatabase_backs_up_and_restores:
  assumes "dbNameToFilename name = Inr filename"
    and "files d (Join (dataDir s) filename) = Some old"
    and "rename_fault d (Join (dataDir s) (filename @ str ''.bak'')) = None"
    and "Fs_WriteDatabase s name input d = (res, d')"
  shows "(res \<noteq> None \<longrightarrow> files d' (Join (dataDir s) filename) = Some old)
       \<and> (res = None \<longrightarrow>
            files d' (Join (dataDir s) filename) = Some (fst input)
            \<and> files d' (Join (dataDir s) (filename @ str ''.bak'')) = Some old
            \<and> snd input = None)
       \<and> (\<exists>ops. trace d' = trace d @ Stat (Join (dataDir s) filename)
                   # Rename (Join (dataDir s) filename) (Join (dataDir s) (filename @ str ''.bak''))
                   # ops
                 \<and> (rename_fault d (Join (dataDir s) filename) = None \<longrightarrow>
                      ops \<noteq> [] \<and> hd ops = OpenFile (Join (dataDir s) filename) [O_CREATE, O_WRONLY]))"
proof -
  let ?fp = "Join (dataDir s) filename"
  let ?bak = "Join (dataDir s) (filename @ str ''.bak'')"
  let ?d0 = "d\<lparr>trace := trace d @ [Stat ?fp]\<rparr>"
  have st: "os_Stat ?fp d = (True, ?d0)" using assms(2) by (simp add: os_Stat_def)
  have ne: "?bak \<noteq> ?fp" by (rule Join_bak_neq)
  show ?thesis
  proof (cases "rename_fault d ?fp")
    case (Some e)
    then have rn: "os_Rename ?fp ?bak ?d0 = (Some e, ?d0\<lparr>trace := trace ?d0 @ [Rename ?fp ?bak]\<rparr>)"
      by (simp add: os_Rename_def Let_def)
    have "res = Some (Wrap ''failed to move existing file %s to backup path %s: %w'' e)"
      and "d' = ?d0\<lparr>trace := trace ?d0 @ [Rename ?fp ?bak]\<rparr>"
      using assms(1,4) st rn by (simp_all add: Fs_WriteDatabase_def Let_def)
    then show ?thesis using assms(2) Some by simp
  next
    case None
    let ?d1 = "?d0\<lparr>trace := trace ?d0 @ [Rename ?fp ?bak],
                    files := ((files d)(?fp := None))(?bak \<mapsto> old)\<rparr>"
    have rn: "os_Rename ?fp ?bak ?d0 = (None, ?d1)"
      using None assms(2) by (simp add: os_Rename_def Let_def)
    have wt: "write_target ?fp ?bak True input ?d1 = (res, d')"
      using assms(1,4) st rn by (simp add: Fs_WriteDatabase_def Let_def)
    have a1: "files ?d1 ?fp = None" using ne by simp
    have a2: "files ?d1 ?bak = Some old" by simp
    have a3: "rename_fault ?d1 ?bak = None" using assms(3) by simp
    from write_target_backed_up [OF a1 a2 a3 ne wt]
    have content: "(res \<noteq> None \<longrightarrow> files d' ?fp = Some old)
       \<and> (res = None \<longrightarrow> files d' ?fp = Some (fst input) \<and> files d' ?bak = Some old \<and> snd input = None)" .
    from write_target_trace [of ?fp ?bak True input ?d1] wt
    obtain ops where "trace d' = trace ?d1 @ OpenFile ?fp [O_CREATE, O_WRONLY] # ops"
      by auto
    then have "trace d' = trace d @ Stat ?fp # Rename ?fp ?bak # (OpenFile ?fp [O_CREATE, O_WRONLY] # ops)"
      by simp
    then have "\<exists>ops. trace d' = trace d @ Stat ?fp # Rename ?fp ?bak # ops
                 \<and> (rename_fault d ?fp = None \<longrightarrow>
                      ops \<noteq> [] \<and> hd ops = OpenFile ?fp [O_CREATE, O_WRONLY])"
      by (intro exI [of _ "OpenFile ?fp [O_CREATE, O_WRONLY] # ops"]) simp
    with content show ?thesis by blast
  qed
qed

text \<open>
  C2. The claim: after \<open>WriteCheckpoints\<close> succeeds the whole content of the file is
  the serialization of the document, also over a longer document written before. The
  code opens the file without truncating it: over a longer content the write succeeds
  and the file holds the new serialization followed by the rest of the old content, which
  is not the serialization of the document.
\<close>

theorem WriteCheckpoints_keeps_old_tail:
  assumes "files d (Join (dataDir s) checkpointsFilename) = Some old"
    and "open_fault d (Join (dataDir s) checkpointsFilename) = None"
    and "write_fault d (Join (dataDir s) checkpointsFilename) = None"
    and "length (enc doc) < length old"
  shows "fst (Fs_WriteCheckpoints enc s doc d) = None
       \<and> files (snd (Fs_WriteCheckpoints enc s doc d)) (Join (dataDir s) checkpointsFilename)
           = Some (enc doc @ drop (length (enc doc)) old)
       \<and> files (snd (Fs_WriteCheckpoints enc s doc d)) (Join (dataDir s) checkpointsFilename)
           \<noteq> Some (enc doc)"
  using assms
  by (simp add: Fs_WriteCheckpoints_def os_OpenFile_def file_Write_def overwrite_def Let_def)

text \<open>
  Reading back after a write gives what the decoder makes of the content that the write
  left, old rest included.
\<close>

lemma ReadCheckpoints_after_write:
  assumes "files d (Join (dataDir s) checkpointsFilename) = Some old"
    and "open_fault d (Join (dataDir s) checkpointsFilename) = None"
    and "write_fault d (Join (dataDir s) checkpointsFilename) = None"
  shows "fst (Fs_ReadCheckpoints dec s (snd (Fs_WriteCheckpoints enc s doc d))) =
           (case dec (overwrite old (enc doc)) of
              Inl err \<Rightarrow> (None, Some (Wrap ''failed to decode checkpoints from JSON file at %s: %w'' err))
            | Inr res \<Rightarrow> (Some res, None))"
  using assms
  by (simp add: Fs_ReadCheckpoints_def Fs_WriteCheckpoints_def os_OpenFile_def file_Write_def
        Let_def split: sum.splits)

text \<open>
  The driver of this repository answers a missing database file as the startup expects:
  a nil reader and an error that wraps \<open>ENOENT\<close>.
\<close>

lemma Fs_ReadDatabase_missing:
  assumes "dbNameToFilename name = Inr filename"
    and "files d (Join (dataDir s) filename) = None"
    and "open_fault d (Join (dataDir s) filename) = None"
  shows "fst (ReadDatabase (FsDriver enc dec s) name d) =
           (None, Some (Wrap ''failed to open file %s for database type %s: %w''
                          (Wrap ''open: %w'' ENOENT)))
       \<and> errors_Is (Wrap ''failed to open file %s for database type %s: %w''
                      (Wrap ''open: %w'' ENOENT)) ENOENT"
  using assms
  by (simp add: FsDriver_def Fs_ReadDatabase_def os_OpenFile_def Let_def)

section \<open>The theorems at concrete inputs\<close>

lemma normalize_old: "NormalizeDomainName ascii_lookup (str ''old.com'') = Inr (str ''old.com'')"
  by code_simp

lemma normalize_mail_upper:
  "NormalizeDomainName ascii_lookup (str ''10MinuteMail.COM'') = Inr (str ''10minutemail.com'')"
  by code_simp

lemma normalize_mail:
  "NormalizeDomainName ascii_lookup (str ''10minutemail.com'') = Inr (str ''10minutemail.com'')"
  by code_simp

theorem refresh_with_all_urls_failed_empties_set_witness:
  "dbs engine_old disposable = Some entry_old
   \<and> Get (Src entry_old) = None
   \<and> Urls (Src entry_old) \<noteq> []
   \<and> list_all (http_failed (httpClient engine_old)) (Urls (Src entry_old))
   \<and> DoesDbHaveDomain w0 engine_old disposable (str ''old.com'') = Inr True
   \<and> (case DownloadAndLoadDatabase w0 engine_old disposable of
         Done (r, s') \<Rightarrow> r = None \<and> DoesDbHaveDomain w0 s' disposable (str ''old.com'') = Inr False
       | Panic \<Rightarrow> False)"
proof -
  have h1: "dbs engine_old disposable = Some entry_old" by (simp add: engine_old_def)
  have h2: "Get (Src entry_old) = None" by (simp add: entry_old_def src_one_def)
  have h3: "Urls (Src entry_old) \<noteq> []" by (simp add: entry_old_def src_one_def)
  have h4: "list_all (http_failed (httpClient engine_old)) (Urls (Src entry_old))"
    by (simp add: engine_old_def entry_old_def src_one_def http_failed_def offline_def)
  have before: "DoesDbHaveDomain w0 engine_old disposable (str ''old.com'') = Inr True"
    using normalize_old by (simp add: DoesDbHaveDomain_def w0_def engine_old_def entry_old_def)
  have after: "case DownloadAndLoadDatabase w0 engine_old disposable of
         Done (r, s') \<Rightarrow> r = None \<and> DoesDbHaveDomain w0 s' disposable (str ''old.com'') = Inr False
       | Panic \<Rightarrow> False"
    using refresh_with_all_urls_failed_empties_set [OF h1 h2 h3 h4, of w0] normalize_old
    by (simp add: DoesDbHaveDomain_def w0_def engine_old_def MemStorageDriver_def Let_def)
  from h1 h2 h3 h4 before after show ?thesis by blast
qed

theorem NewDomainDb_returns_nil_nil_witness:
  "\<not> LoadDatabasesInBackground opts_no_cache
   \<and> DisableDownload opts_no_cache
   \<and> Sources opts_no_cache = (disposable, src_one) # []
   \<and> ReadCheckpoints (opt_StorageDriver opts_no_cache) (opt_store opts_no_cache)
       = ((None, Some (Wrap ''failed to open file: %w'' ENOENT)), mem_empty)
   \<and> errors_Is (Wrap ''failed to open file: %w'' ENOENT) ENOENT
   \<and> NewDomainDb w0 opts_no_cache = Done (None, None)"
proof -
  have h1: "\<not> LoadDatabasesInBackground opts_no_cache" by (simp add: opts_no_cache_def)
  have h2: "DisableDownload opts_no_cache" by (simp add: opts_no_cache_def)
  have h3: "Sources opts_no_cache = (disposable, src_one) # []" by (simp add: opts_no_cache_def)
  have h4: "ReadCheckpoints (opt_StorageDriver opts_no_cache) (opt_store opts_no_cache)
       = ((None, Some (Wrap ''failed to open file: %w'' ENOENT)), mem_empty)"
    by (simp add: opts_no_cache_def MemStorageDriver_def mem_empty_def)
  have h5: "errors_Is (Wrap ''failed to open file: %w'' ENOENT) ENOENT" by simp
  from h1 h2 h3 h4 h5 NewDomainDb_returns_nil_nil [OF h1 h2 h3 h4 h5, of w0]
  show ?thesis by blast
qed

theorem NewDomainDb_panics_on_missing_cache_file_witness:
  "\<not> LoadDatabasesInBackground opts_missing_file
   \<and> \<not> DisableDownload opts_missing_file
   \<and> Sources opts_missing_file = (disposable, src_one) # []
   \<and> ReadCheckpoints (opt_StorageDriver opts_missing_file) (opt_store opts_missing_file)
       = ((Some \<lparr>Checkpoints = []\<rparr>, None), mem_checkpointed)
   \<and> ReadDatabase (opt_StorageDriver opts_missing_file) disposable mem_checkpointed
       = ((None, Some (Wrap ''failed to open file: %w'' ENOENT)), mem_checkpointed)
   \<and> errors_Is (Wrap ''failed to open file: %w'' ENOENT) ENOENT
   \<and> (case DownloadAndLoadDatabase w0 ((new_DomainDb opts_missing_file)) disposable of
         Done (r, s') \<Rightarrow> r = None \<and> DoesDbHaveDomain w0 s' disposable (str ''good.com'') = Inr True
       | Panic \<Rightarrow> False)
   \<and> NewDomainDb w0 opts_missing_file = Panic"
proof -
  have h1: "\<not> LoadDatabasesInBackground opts_missing_file" by (simp add: opts_missing_file_def)
  have h1': "\<not> DisableDownload opts_missing_file" by (simp add: opts_missing_file_def)
  have h2: "Sources opts_missing_file = (disposable, src_one) # []"
    by (simp add: opts_missing_file_def)
  have h3: "ReadCheckpoints (opt_StorageDriver opts_missing_file) (opt_store opts_missing_file)
       = ((Some \<lparr>Checkpoints = []\<rparr>, None), mem_checkpointed)"
    by (simp add: opts_missing_file_def MemStorageDriver_def mem_checkpointed_def)
  have h4: "ReadDatabase (opt_StorageDriver opts_missing_file) disposable mem_checkpointed
       = ((None, Some (Wrap ''failed to open file: %w'' ENOENT)), mem_checkpointed)"
    by (simp add: opts_missing_file_def MemStorageDriver_def mem_checkpointed_def)
  have h5: "errors_Is (Wrap ''failed to open file: %w'' ENOENT) ENOENT" by simp
  have dl: "case DownloadAndLoadDatabase w0 ((new_DomainDb opts_missing_file)) disposable of
         Done (r, s') \<Rightarrow> r = None \<and> DoesDbHaveDomain w0 s' disposable (str ''good.com'') = Inr True
       | Panic \<Rightarrow> False"
    by code_simp
  from h1 h1' h2 h3 h4 h5 dl NewDomainDb_panics_on_missing_cache_file [OF h1 h2 h3 h4 h5, of w0]
  show ?thesis by blast
qed

lemma scanned_list_text:
  "scanned w0 list_text = [str ''10minutemail.com'', str ''# a comment'', [], str ''bad_name.com'']"
  by code_simp

lemma scan_lines_list_text:
  "scan_lines (fst list_text) = [str ''10minutemail.com'', str ''# a comment'', [], str ''bad_name.com'']"
  by code_simp

lemma bad_lines_list_text: "bad_lines w0 list_text = [str ''bad_name.com'']"
  by code_simp

lemma good_lines_list_text: "good_lines w0 list_text = [str ''10minutemail.com'']"
  by code_simp

lemma ten_bad_failures: "length (fst (snd (load_loop (uts46 w0) ten_bad {} [] 0))) = 10"
  by code_simp

lemma line_domain_mail: "line_domain (uts46 w0) (str ''10minutemail.com'') = str ''10minutemail.com''"
  using normalize_mail by (simp add: line_domain_def w0_def)






theorem loadDomainsFromReader_tolerance_witness:
  "dbs engine_old disposable = Some entry_old
   \<and> length (bad_lines w0 list_text) = 1
   \<and> length (good_lines w0 list_text) = 1
   \<and> loadDomainsFromReader w0 engine_old list_text disposable =
       Done (None, engine_old\<lparr>dbs := (dbs engine_old)(disposable \<mapsto>
               entry_old\<lparr>Domains := {str ''10minutemail.com''}\<rparr>)\<rparr>)
   \<and> scans (uts46 w0) (scan_lines (fst list_text)) 0 = 4
   \<and> length (fst (snd (load_loop (uts46 w0) ten_bad {} [] 0))) = 10
   \<and> fst (load_loop (uts46 w0) (ten_bad @ [str ''10minutemail.com'']) {} [] 0)
       = fst (load_loop (uts46 w0) ten_bad {} [] 0)
   \<and> snd (snd (snd (load_loop (uts46 w0) (ten_bad @ [str ''10minutemail.com'']) {} [] 0)))"
proof -
  have h1: "dbs engine_old disposable = Some entry_old" by (simp add: engine_old_def)
  note t = loadDomainsFromReader_tolerance [OF h1, of w0 list_text]
  have c1: "loadDomainsFromReader w0 engine_old list_text disposable =
       Done (None, engine_old\<lparr>dbs := (dbs engine_old)(disposable \<mapsto>
               entry_old\<lparr>Domains := {str ''10minutemail.com''}\<rparr>)\<rparr>)"
    using t by (simp add: bad_lines_list_text good_lines_list_text line_domain_mail)
  have "scans (uts46 w0) (scan_lines (fst list_text)) 0 =
         length (scanned w0 list_text)
         + (if length (scanned w0 list_text) < length (scan_lines (fst list_text)) then 1 else 0)"
    using t by blast
  then have c2: "scans (uts46 w0) (scan_lines (fst list_text)) 0 = 4"
    by (simp add: scanned_list_text scan_lines_list_text)
  have "load_loop (uts46 w0) (ten_bad @ [str ''10minutemail.com'']) {} [] 0 =
             (fst (load_loop (uts46 w0) ten_bad {} [] 0),
              fst (snd (load_loop (uts46 w0) ten_bad {} [] 0)),
              fst (snd (snd (load_loop (uts46 w0) ten_bad {} [] 0))),
              snd (snd (snd (load_loop (uts46 w0) ten_bad {} [] 0))) \<or> [str ''10minutemail.com''] \<noteq> [])"
    using t ten_bad_failures by blast
  then have c3: "fst (load_loop (uts46 w0) (ten_bad @ [str ''10minutemail.com'']) {} [] 0)
       = fst (load_loop (uts46 w0) ten_bad {} [] 0)
     \<and> snd (snd (snd (load_loop (uts46 w0) (ten_bad @ [str ''10minutemail.com'']) {} [] 0)))"
    by simp
  from h1 c1 c2 c3 ten_bad_failures show ?thesis
    by (simp add: bad_lines_list_text good_lines_list_text)
qed

theorem openDataSource_url_mode_witness:
  "Get src_two = None \<and> Urls src_two \<noteq> []
   \<and> openDataSource offline src_two =
       Inr ([10, 10],
            Some (Joined [Wrap ''failed to download database (source URL %s): %w''
                            (New ''dial tcp: connection refused''),
                          Wrap ''failed to download database (source URL %s): %w''
                            (New ''dial tcp: connection refused''),
                          ErrAllUrlsFailed]))
   \<and> openDataSource half_serving src_two = Inr ([10] @ str ''good.com'' @ [10, 10], None)"
proof -
  have h1: "Get src_two = None" by (simp add: src_two_def)
  have h2: "Urls src_two \<noteq> []" by (simp add: src_two_def)
  have ne: "url_b \<noteq> url_a" by (simp add: url_a_def url_b_def str_def)
  have c1: "openDataSource offline src_two =
       Inr ([10, 10],
            Some (Joined [Wrap ''failed to download database (source URL %s): %w''
                            (New ''dial tcp: connection refused''),
                          Wrap ''failed to download database (source URL %s): %w''
                            (New ''dial tcp: connection refused''),
                          ErrAllUrlsFailed]))"
    using openDataSource_url_mode [OF h1 h2, of offline]
    by (simp add: src_two_def offline_def url_failed_def url_error_def url_written_def)
  have c2: "openDataSource half_serving src_two = Inr ([10] @ str ''good.com'' @ [10, 10], None)"
    using openDataSource_url_mode [OF h1 h2, of half_serving] ne
    by (simp add: src_two_def half_serving_def url_failed_def url_error_def url_written_def)
  from h1 h2 c1 c2 show ?thesis by blast
qed

theorem unloaded_database_answers_false_witness:
  "disposable \<in> fst ` set (Sources opts_background)
   \<and> LoadDatabasesInBackground opts_background
   \<and> snd (fst (ReadCheckpoints (opt_StorageDriver opts_background) (opt_store opts_background)))
       = Some (Wrap ''failed to open file: %w'' ENOENT)
   \<and> NewDomainDb w0 opts_background = Done (Some (new_DomainDb opts_background), None)
   \<and> dbs (new_DomainDb opts_background) disposable = Some (new_dbSrcMap src_one)
   \<and> DoesDbHaveDomain w0 (new_DomainDb opts_background) disposable (str ''10MinuteMail.COM'')
       = Inr False"
proof -
  have h1: "disposable \<in> fst ` set (Sources opts_background)" by (simp add: opts_background_def)
  have h2: "LoadDatabasesInBackground opts_background" by (simp add: opts_background_def)
  have h3: "snd (fst (ReadCheckpoints (opt_StorageDriver opts_background) (opt_store opts_background)))
       = Some (Wrap ''failed to open file: %w'' ENOENT)"
    by (simp add: opts_background_def MemStorageDriver_def mem_empty_def)
  have st: "snd (ReadCheckpoints (opt_StorageDriver opts_background) (opt_store opts_background))
              = store (new_DomainDb opts_background)"
    by (simp add: opts_background_def MemStorageDriver_def mem_empty_def new_DomainDb_def)
  have is_enoent: "errors_Is (the (snd (fst (ReadCheckpoints (opt_StorageDriver opts_background)
                                               (opt_store opts_background))))) ENOENT"
    by (simp add: h3)
  have "NewDomainDb w0 opts_background =
          Done (Some ((new_DomainDb opts_background)
                  \<lparr>store := snd (ReadCheckpoints (opt_StorageDriver opts_background)
                                   (opt_store opts_background))\<rparr>),
                None)"
    using unloaded_database_answers_false [OF h1, of w0] h2 is_enoent by blast
  then have c0: "NewDomainDb w0 opts_background = Done (Some (new_DomainDb opts_background), None)"
    by (simp add: st)
  have c1: "dbs (new_DomainDb opts_background) disposable = Some (new_dbSrcMap src_one)"
    by (simp add: new_DomainDb_def opts_background_def)
  have n1: "NormalizeDomainName (uts46 w0) (str ''10MinuteMail.COM'') = Inr (str ''10minutemail.com'')"
    using normalize_mail_upper by (simp add: w0_def)
  have e: "Domains (new_dbSrcMap src_one) = {}"
    using unloaded_database_answers_false [OF h1, of w0] by blast
  have c2: "DoesDbHaveDomain w0 (new_DomainDb opts_background) disposable (str ''10MinuteMail.COM'')
       = Inr False"
    using unloaded_database_answers_false [OF h1, of w0] c1 e n1 by blast
  from h1 h2 h3 c0 c1 c2 show ?thesis by blast
qed

lemma filename_disposable: "dbNameToFilename disposable = Inr (str ''disposable.txt'')"
  by code_simp

lemma render_short: "render_checkpoints doc_short = str ''{\"Checkpoints\":{}}'' @ [10]"
  by code_simp

lemma render_long:
  "render_checkpoints doc_long
     = str ''{\"Checkpoints\":{\"disposable\":{\"LastUpdatedUnix\":1700000000}}}'' @ [10]"
  by code_simp

theorem WriteDatabase_backs_up_and_restores_witness:
  "dbNameToFilename disposable = Inr (str ''disposable.txt'')
   \<and> files disk_full (Join (dataDir fs_driver) (str ''disposable.txt'')) = Some (str ''old.com'' @ [10])
   \<and> rename_fault disk_full (Join (dataDir fs_driver) (str ''disposable.txt'' @ str ''.bak'')) = None
   \<and> fst (Fs_WriteDatabase fs_driver disposable (str ''new.com'' @ [10], None) disk_full)
       = Some (Wrap ''failed to copy input to file %s for writing database %s: %w''
                 (New ''no space left on device''))
   \<and> files (snd (Fs_WriteDatabase fs_driver disposable (str ''new.com'' @ [10], None) disk_full))
         (str ''/data/disposable.txt'') = Some (str ''old.com'' @ [10])
   \<and> fst (Fs_WriteDatabase fs_driver disposable (str ''new.com'' @ [10], None) disk_cached) = None
   \<and> files (snd (Fs_WriteDatabase fs_driver disposable (str ''new.com'' @ [10], None) disk_cached))
         (str ''/data/disposable.txt'') = Some (str ''new.com'' @ [10])
   \<and> files (snd (Fs_WriteDatabase fs_driver disposable (str ''new.com'' @ [10], None) disk_cached))
         (str ''/data/disposable.txt.bak'') = Some (str ''old.com'' @ [10])"
proof -
  let ?in = "(str ''new.com'' @ [10], None) :: stream"
  have fp: "Join (dataDir fs_driver) (str ''disposable.txt'') = str ''/data/disposable.txt''"
    by (simp add: Join_def fs_driver_def str_def)
  have bak: "Join (dataDir fs_driver) (str ''disposable.txt'' @ str ''.bak'') = str ''/data/disposable.txt.bak''"
    by (simp add: Join_def fs_driver_def str_def)
  have h2: "files disk_full (Join (dataDir fs_driver) (str ''disposable.txt'')) = Some (str ''old.com'' @ [10])"
    by (simp add: fp disk_full_def disk_cached_def)
  have h2': "files disk_cached (Join (dataDir fs_driver) (str ''disposable.txt'')) = Some (str ''old.com'' @ [10])"
    by (simp add: fp disk_cached_def)
  have h3: "rename_fault disk_full (Join (dataDir fs_driver) (str ''disposable.txt'' @ str ''.bak'')) = None"
    by (simp add: disk_full_def disk_cached_def)
  have h3': "rename_fault disk_cached (Join (dataDir fs_driver) (str ''disposable.txt'' @ str ''.bak'')) = None"
    by (simp add: disk_cached_def)
  have ne: "str ''/data/disposable.txt.bak'' \<noteq> str ''/data/disposable.txt''"
    by (simp add: str_def)
  have r1: "fst (Fs_WriteDatabase fs_driver disposable ?in disk_full)
       = Some (Wrap ''failed to copy input to file %s for writing database %s: %w''
                 (New ''no space left on device''))"
    using ne
    by (simp add: Fs_WriteDatabase_def filename_disposable fp bak os_Stat_def os_Rename_def
          write_target_def os_OpenFile_def io_Copy_def file_Write_def restore_backup_def
          disk_full_def disk_cached_def Let_def str_def)
  have r2: "fst (Fs_WriteDatabase fs_driver disposable ?in disk_cached) = None"
    using ne
    by (simp add: Fs_WriteDatabase_def filename_disposable fp bak os_Stat_def os_Rename_def
          write_target_def os_OpenFile_def io_Copy_def file_Write_def restore_backup_def
          disk_cached_def Let_def)
  note t1 = WriteDatabase_backs_up_and_restores [OF filename_disposable h2 h3 surjective_pairing, of ?in]
  note t2 = WriteDatabase_backs_up_and_restores [OF filename_disposable h2' h3' surjective_pairing, of ?in]
  have c1: "files (snd (Fs_WriteDatabase fs_driver disposable ?in disk_full))
         (str ''/data/disposable.txt'') = Some (str ''old.com'' @ [10])"
    using t1 r1 by (simp add: fp)
  have c2: "files (snd (Fs_WriteDatabase fs_driver disposable ?in disk_cached))
         (str ''/data/disposable.txt'') = Some (str ''new.com'' @ [10])
       \<and> files (snd (Fs_WriteDatabase fs_driver disposable ?in disk_cached))
         (str ''/data/disposable.txt.bak'') = Some (str ''old.com'' @ [10])"
    using t2 r2 by (simp add: fp bak)
  from filename_disposable h2 h3 r1 c1 r2 c2 show ?thesis by blast
qed

theorem WriteCheckpoints_keeps_old_tail_witness:
  "files disk_checkpointed (Join (dataDir fs_driver) checkpointsFilename)
       = Some (render_checkpoints doc_long)
   \<and> open_fault disk_checkpointed (Join (dataDir fs_driver) checkpointsFilename) = None
   \<and> write_fault disk_checkpointed (Join (dataDir fs_driver) checkpointsFilename) = None
   \<and> length (render_checkpoints doc_short) < length (render_checkpoints doc_long)
   \<and> fst (Fs_WriteCheckpoints render_checkpoints fs_driver doc_short disk_checkpointed) = None
   \<and> files (snd (Fs_WriteCheckpoints render_checkpoints fs_driver doc_short disk_checkpointed))
         (str ''/data/checkpoints.json'')
       = Some (str ''{\"Checkpoints\":{}}'' @ [10]
               @ str ''sposable\":{\"LastUpdatedUnix\":1700000000}}}'' @ [10])
   \<and> render_checkpoints doc_short = str ''{\"Checkpoints\":{}}'' @ [10]"
proof -
  have fp: "Join (dataDir fs_driver) checkpointsFilename = str ''/data/checkpoints.json''"
    by (simp add: Join_def fs_driver_def checkpointsFilename_def str_def)
  have h1: "files disk_checkpointed (Join (dataDir fs_driver) checkpointsFilename)
       = Some (render_checkpoints doc_long)"
    by (simp add: fp disk_checkpointed_def)
  have h2: "open_fault disk_checkpointed (Join (dataDir fs_driver) checkpointsFilename) = None"
    by (simp add: disk_checkpointed_def)
  have h3: "write_fault disk_checkpointed (Join (dataDir fs_driver) checkpointsFilename) = None"
    by (simp add: disk_checkpointed_def)
  have h4: "length (render_checkpoints doc_short) < length (render_checkpoints doc_long)"
    by (simp add: render_short render_long str_def)
  note t = WriteCheckpoints_keeps_old_tail [where enc = render_checkpoints and doc = doc_short, OF h1 h2 h3 h4]
  have c1: "fst (Fs_WriteCheckpoints render_checkpoints fs_driver doc_short disk_checkpointed) = None"
    using t by blast
  have c2: "files (snd (Fs_WriteCheckpoints render_checkpoints fs_driver doc_short disk_checkpointed))
         (str ''/data/checkpoints.json'')
       = Some (str ''{\"Checkpoints\":{}}'' @ [10]
               @ str ''sposable\":{\"LastUpdatedUnix\":1700000000}}}'' @ [10])"
    using t by (simp add: fp render_short render_long str_def)
  from h1 h2 h3 h4 c1 c2 render_short show ?thesis by blast
qed

end
